theory Spec2Isabelle
  imports Complex_Main "HOL-Library.Word"
begin

unbundle bit_operations_syntax

section \<open>Data model (types.ts)\<close>

text \<open>
  JavaScript numbers are IEEE doubles. They are modelled as the reals they denote, and the
  subtractions the source performs on them round to the nearest double (\<open>doubleMinus\<close>
  below), as does the division behind a buffer's \<open>duration\<close>. The \<open>%\<close> of two doubles is
  exact, and so is the division of a 16-bit integer by \<open>2^15\<close> in the PCM fallback, also as
  a 32-bit float. Infinities and NaN are not values of
  the model: the one NaN the code can produce (a remainder by zero) is a branch of
  \<open>playAudio\<close>, and the times it computes are far below the overflow threshold.
\<close>

datatype Vibe = MYSTERIOUS | WHIMSICAL | HISTORICAL | FUTURISTIC | REFLECTIVE | HORROR | ACTION

datatype TimeOfDay = MORNING | AFTERNOON | EVENING | NIGHT

record Coordinates =
  latitude :: real
  longitude :: real

text \<open>
  A string read from a response object may be \<open>undefined\<close> at run time (the chunk is typed
  \<open>any\<close> in the source), hence \<open>string option\<close> with \<open>None\<close> for \<open>undefined\<close>.
\<close>

record GroundingSource =
  title :: "string option"
  uri :: "string option"

record StoryResponse =
  storyResponseText :: string
  storyResponseSources :: "GroundingSource list"

record AppState =
  coords :: "Coordinates option"
  timeOfDay :: TimeOfDay
  selectedVibe :: Vibe
  isGenerating :: bool
  storyText :: "string option"
  audioUrl :: "string option"
  groundingSources :: "GroundingSource list"
  error :: "string option"
  statusMessage :: string

section \<open>Thrown values\<close>

text \<open>
  What a \<open>throw\<close> or a rejected promise carries. \<open>ErrorInstance name message\<close> is any object
  that is \<open>instanceof Error\<close> (\<open>Error\<close>, \<open>TypeError\<close>, \<open>RangeError\<close>, \<open>DOMException\<close>);
  \<open>ThrownObject j\<close> is another object, with \<open>j\<close> the result of \<open>JSON.stringify\<close> on it
  (\<open>None\<close> when that call throws).
\<close>

datatype Thrown =
    ErrorInstance string string
  | ThrownString string
  | ThrownObject "string option"
  | ThrownOther

section \<open>Numbers\<close>

text \<open>
  Rounding to the nearest double, ties to even. \<open>quantumExponent x\<close> is the exponent of the
  spacing of the doubles around \<open>x\<close>: 52 below the binary exponent of \<open>x\<close>, and \<open>-1074\<close> in the
  subnormal range. \<open>doubleMinus\<close> is the \<open>-\<close> of the source on two numbers.
\<close>

definition roundHalfEven :: "real \<Rightarrow> int" where
  "roundHalfEven z =
     (let f = \<lfloor>z\<rfloor>; r = z - of_int f
      in if r < 1 / 2 then f else if 1 / 2 < r then f + 1 else if even f then f else f + 1)"

definition quantumExponent :: "real \<Rightarrow> int" where
  "quantumExponent x = max (\<lfloor>log 2 \<bar>x\<bar>\<rfloor> - 52) (- 1074)"

definition toDouble :: "real \<Rightarrow> real" where
  "toDouble x =
     (if x = 0 then 0
      else of_int (roundHalfEven (x / 2 powi quantumExponent x)) * 2 powi quantumExponent x)"

definition doubleMinus :: "real \<Rightarrow> real \<Rightarrow> real" where
  "doubleMinus x y = toDouble (x - y)"

section \<open>The Web Audio objects the code touches\<close>

type_synonym byte = "8 word"

record AudioBuffer =
  numberOfChannels :: nat
  frameCount :: nat
  sampleRate :: nat
  channelData :: "real list list"

text \<open>
  The \<open>duration\<close> attribute of an AudioBuffer: its length in frames divided by its sample
  rate, as a double.
\<close>

definition duration :: "AudioBuffer \<Rightarrow> real" where
  "duration b = toDouble (real (frameCount b) / real (sampleRate b))"

record AudioContext =
  currentTime :: real
  suspended :: bool

text \<open>
  A source node created by \<open>createBufferSource\<close>: the buffer assigned to it and the offset
  it was started at. \<open>nodeId\<close> is the object's identity.
\<close>

record AudioBufferSourceNode =
  nodeId :: nat
  nodeBuffer :: AudioBuffer
  startOffset :: real

section \<open>External collaborators\<close>

text \<open>
  The response of the text model, reduced to what \<open>generateStoryText\<close> reads: the \<open>text\<close>
  getter and the value of the optional chain
  \<open>candidates?.[0]?.groundingMetadata?.groundingChunks\<close>.
\<close>

record WebChunk =
  webTitle :: "string option"
  webUri :: "string option"

record MapsChunk =
  mapsTitle :: "string option"
  mapsUri :: "string option"

record GroundingChunk =
  web :: "WebChunk option"
  maps :: "MapsChunk option"

record GenerateContentResponse =
  responseText :: "string option"
  groundingChunks :: "GroundingChunk list option"

text \<open>
  Everything outside the repository is a field of the environment:
  \<^item> \<open>storyModel\<close>: \<open>ai.models.generateContent\<close> with the story prompt built from the
    coordinates, the time of day and the vibe; \<open>Inl\<close> is a rejection;
  \<^item> \<open>speechModel\<close>: \<open>ai.models.generateContent\<close> on the speech model; the result is the value
    of \<open>candidates?.[0]?.content?.parts?.[0]?.inlineData?.data\<close>;
  \<^item> \<open>atob\<close>: base64 decoding, \<open>None\<close> when it throws InvalidCharacterError;
  \<^item> \<open>decodeAudioData\<close>: the container-aware decoder, \<open>None\<close> when its promise rejects;
  \<^item> \<open>newAudioContext\<close>: the result of \<open>new AudioContext({sampleRate: 24000})\<close>, \<open>None\<close> when
    no constructor exists and the \<open>new\<close> expression throws a TypeError.
\<close>

record Env =
  storyModel :: "Coordinates \<Rightarrow> TimeOfDay \<Rightarrow> Vibe \<Rightarrow> Thrown + GenerateContentResponse"
  speechModel :: "string \<Rightarrow> Thrown + string option"
  atob :: "string \<Rightarrow> byte list option"
  decodeAudioData :: "byte list \<Rightarrow> AudioBuffer option"
  newAudioContext :: "AudioContext option"

section \<open>services/gemini: decodeAndPlay\<close>

text \<open>
  \<open>new Int16Array(bytes.buffer)\<close>: a view of the whole buffer as 16-bit signed integers in
  platform byte order, taken little-endian as the source's comment does. The constructor
  throws a RangeError when the byte length is not a multiple of 2.
\<close>

fun int16Pairs :: "byte list \<Rightarrow> 16 word list" where
  "int16Pairs (lo # hi # rest) = (push_bit 8 (ucast hi) OR ucast lo) # int16Pairs rest"
| "int16Pairs _ = []"

definition newInt16Array :: "byte list \<Rightarrow> Thrown + 16 word list" where
  "newInt16Array bytes =
     (if odd (length bytes)
      then Inl (ErrorInstance ''RangeError'' ''byte length of Int16Array should be a multiple of 2'')
      else Inr (int16Pairs bytes))"

text \<open>
  \<open>audioContext.createBuffer(channels, frameCount, sampleRate)\<close>: a silent buffer. The Web
  Audio API throws NotSupportedError when the channel count or the frame count is zero or
  the sample rate is outside the supported range. Every implementation supports 8000 to
  96000; the model refuses the rates outside, which the code never passes (its one call
  passes 24000).
\<close>

definition createBuffer :: "nat \<Rightarrow> nat \<Rightarrow> nat \<Rightarrow> Thrown + AudioBuffer" where
  "createBuffer channels frames rate =
     (if channels = 0 \<or> frames = 0 \<or> rate < 8000 \<or> 96000 < rate
      then Inl (ErrorInstance ''NotSupportedError'' ''createBuffer: argument outside its nominal range'')
      else Inr \<lparr> numberOfChannels = channels, frameCount = frames, sampleRate = rate,
                 channelData = replicate channels (replicate frames 0) \<rparr>)"

text \<open>The loop \<open>for (i = 0; i < frameCount; i++) channelData[i] = dataInt16[i] / 32768.0\<close>.\<close>

function fillChannel :: "16 word list \<Rightarrow> nat \<Rightarrow> nat \<Rightarrow> real list \<Rightarrow> real list" where
  "fillChannel dataInt16 frames i channel =
     (if i < frames
      then fillChannel dataInt16 frames (Suc i)
             (channel[i := real_of_int (sint (dataInt16 ! i)) / 32768])
      else channel)"
  by pat_completeness auto
termination
  by (relation "measure (\<lambda>(dataInt16, frames, i, channel). frames - i)") auto

declare fillChannel.simps [simp del]

text \<open>The fallback branch of \<open>decodeAndPlay\<close> (the body of its \<open>catch\<close>).\<close>

definition pcmFallback :: "byte list \<Rightarrow> Thrown + AudioBuffer" where
  "pcmFallback bytes =
     (case newInt16Array bytes of
        Inl e \<Rightarrow> Inl e
      | Inr dataInt16 \<Rightarrow>
          (let frames = length dataInt16 in
           case createBuffer 1 frames 24000 of
             Inl e \<Rightarrow> Inl e
           | Inr audioBuffer \<Rightarrow>
               Inr (audioBuffer \<lparr> channelData :=
                      (channelData audioBuffer)
                        [0 := fillChannel dataInt16 frames 0 (channelData audioBuffer ! 0)] \<rparr>)))"

text \<open>
  \<open>decodeAndPlay\<close>. Its context argument is used for \<open>decodeAudioData\<close> and \<open>createBuffer\<close>
  only, which the environment and the definition above stand for. \<open>atob\<close> is called
  outside the \<open>try\<close>, so what it throws leaves the function; the loop that copies the
  decoded string into a byte array copies it unchanged.
\<close>

definition decodeAndPlay :: "Env \<Rightarrow> string \<Rightarrow> Thrown + AudioBuffer" where
  "decodeAndPlay env base64Data =
     (case atob env base64Data of
        None \<Rightarrow> Inl (ErrorInstance ''InvalidCharacterError'' ''The string to be decoded is not correctly encoded.'')
      | Some bytes \<Rightarrow>
          (case decodeAudioData env bytes of
             Some decoded \<Rightarrow> Inr decoded
           | None \<Rightarrow> pcmFallback bytes))"

section \<open>services/gemini: generateStoryText and generateSpeech\<close>

text \<open>\<open>value || fallback\<close> on a string that may be \<open>undefined\<close>: the empty string is falsy too.\<close>

definition orElse :: "string option \<Rightarrow> string \<Rightarrow> string" where
  "orElse v fallback = (case v of None \<Rightarrow> fallback | Some t \<Rightarrow> if t = [] then fallback else t)"

definition weakSignalText :: string where
  "weakSignalText = ''The signal is weak... I cannot weave a story right now.''"

text \<open>The body of \<open>chunks.forEach\<close>: a web citation wins over a map citation.\<close>

definition pushChunk :: "GroundingSource list \<Rightarrow> GroundingChunk \<Rightarrow> GroundingSource list" where
  "pushChunk sources chunk =
     (case web chunk of
        Some w \<Rightarrow> sources @ [\<lparr> title = webTitle w, uri = webUri w \<rparr>]
      | None \<Rightarrow>
          (case maps chunk of
             Some m \<Rightarrow> sources @ [\<lparr> title = Some (orElse (mapsTitle m) ''Map Location''),
                                     uri = mapsUri m \<rparr>]
           | None \<Rightarrow> sources))"

definition extractSources :: "GenerateContentResponse \<Rightarrow> GroundingSource list" where
  "extractSources response =
     (case groundingChunks response of
        None \<Rightarrow> []
      | Some chunks \<Rightarrow> foldl pushChunk [] chunks)"

definition storyFailure :: Thrown where
  "storyFailure = ErrorInstance ''Error''
     ''Failed to weave the narrative thread. The connection to the neural net was interrupted.''"

text \<open>
  The prompt string is not modelled: the collaborator receives the coordinates, the time of
  day and the vibe it is built from. Whatever is thrown inside the \<open>try\<close> is replaced by
  \<open>storyFailure\<close> in the \<open>catch\<close>.
\<close>

definition generateStoryText ::
  "Env \<Rightarrow> Coordinates \<Rightarrow> TimeOfDay \<Rightarrow> Vibe \<Rightarrow> Thrown + StoryResponse" where
  "generateStoryText env c time vibe =
     (case storyModel env c time vibe of
        Inl e \<Rightarrow> Inl storyFailure
      | Inr response \<Rightarrow>
          Inr \<lparr> storyResponseText = orElse (responseText response) weakSignalText,
                storyResponseSources = extractSources response \<rparr>)"

definition speechFailure :: Thrown where
  "speechFailure = ErrorInstance ''Error'' ''Voice synthesis module failed.''"

text \<open>
  \<open>throw new Error("No audio data received from the ether.")\<close> is inside the \<open>try\<close>, so the
  function's own \<open>catch\<close> replaces it by \<open>speechFailure\<close> as it does a rejection.
\<close>

definition generateSpeech :: "Env \<Rightarrow> string \<Rightarrow> Thrown + string" where
  "generateSpeech env narrative =
     (case speechModel env narrative of
        Inl e \<Rightarrow> Inl speechFailure
      | Inr base64Audio \<Rightarrow>
          (case base64Audio of
             None \<Rightarrow> Inl speechFailure
           | Some b \<Rightarrow> if b = [] then Inl speechFailure else Inr b))"

section \<open>App.tsx: the component's state and the audio engine\<close>

text \<open>
  The React state, the \<open>isPlaying\<close> state and the five refs of the component, together with
  the part of the audio engine the code acts on: \<open>outputs\<close> are the source nodes that have
  been started and have neither been stopped nor run to their end (the nodes that sound),
  \<open>nodesCreated\<close> numbers the nodes as \<open>createBufferSource\<close> makes them.
\<close>

record App =
  state :: AppState
  isPlaying :: bool
  audioContextRef :: "AudioContext option"
  audioSourceRef :: "AudioBufferSourceNode option"
  audioBufferRef :: "AudioBuffer option"
  startTimeRef :: real
  pausedAtRef :: real
  outputs :: "AudioBufferSourceNode list"
  nodesCreated :: nat

definition initialApp :: App where
  "initialApp =
     \<lparr> state = \<lparr> coords = None, timeOfDay = MORNING, selectedVibe = MYSTERIOUS,
                  isGenerating = False, storyText = None, audioUrl = None,
                  groundingSources = [], error = None,
                  statusMessage = ''Initializing Systems...'' \<rparr>,
       isPlaying = False, audioContextRef = None, audioSourceRef = None,
       audioBufferRef = None, startTimeRef = 0, pausedAtRef = 0,
       outputs = [], nodesCreated = 0 \<rparr>"

definition setState :: "(AppState \<Rightarrow> AppState) \<Rightarrow> App \<Rightarrow> App" where
  "setState f s = s \<lparr> state := f (state s) \<rparr>"

text \<open>\<open>source.stop()\<close>: the node no longer sounds.\<close>

definition halt :: "AudioBufferSourceNode \<Rightarrow> AudioBufferSourceNode list \<Rightarrow> AudioBufferSourceNode list" where
  "halt source nodes = filter (\<lambda>n. nodeId n \<noteq> nodeId source) nodes"

text \<open>
  The \<open>%\<close> operator on numbers with a non-zero divisor: the quotient is truncated towards
  zero, so the result has the sign of the dividend. (With a zero divisor the result is NaN;
  \<open>playAudio\<close> below treats that case apart.)
\<close>

definition truncate :: "real \<Rightarrow> int" where
  "truncate x = (if 0 \<le> x then \<lfloor>x\<rfloor> else \<lceil>x\<rceil>)"

definition remainder :: "real \<Rightarrow> real \<Rightarrow> real" where
  "remainder n d = n - d * of_int (truncate (n / d))"

definition resumeIfSuspended :: "AudioContext \<Rightarrow> AudioContext" where
  "resumeIfSuspended ctx = (if suspended ctx then ctx \<lparr> suspended := False \<rparr> else ctx)"

definition initAudioContext :: "Env \<Rightarrow> App \<Rightarrow> (Thrown \<times> App) + App" where
  "initAudioContext env s =
     (case audioContextRef s of
        None \<Rightarrow>
          (case newAudioContext env of
             None \<Rightarrow> Inl (ErrorInstance ''TypeError'' ''AudioContext is not a constructor'', s)
           | Some ctx \<Rightarrow> Inr (s \<lparr> audioContextRef := Some (resumeIfSuspended ctx) \<rparr>))
      | Some ctx \<Rightarrow> Inr (s \<lparr> audioContextRef := Some (resumeIfSuspended ctx) \<rparr>))"

text \<open>
  \<open>playAudio\<close>. An exception leaves with the state reached so far (\<open>Inl\<close>).
  \<open>source.start(0, offset)\<close> throws a TypeError on a NaN offset (a buffer of duration 0)
  and a RangeError on a negative one. Nothing here stops a source that is already sounding.
\<close>

definition playAudio :: "Env \<Rightarrow> App \<Rightarrow> (Thrown \<times> App) + App" where
  "playAudio env s =
     (case initAudioContext env s of
        Inl failure \<Rightarrow> Inl failure
      | Inr s1 \<Rightarrow>
          (case (audioContextRef s1, audioBufferRef s1) of
             (Some ctx, Some buffer) \<Rightarrow>
               (let s2 = s1 \<lparr> nodesCreated := Suc (nodesCreated s1) \<rparr> in
                if duration buffer = 0
                then Inl (ErrorInstance ''TypeError'' ''start: the offset is non-finite'', s2)
                else
                  (let offset = remainder (pausedAtRef s2) (duration buffer);
                       source = \<lparr> nodeId = nodesCreated s1, nodeBuffer = buffer,
                                  startOffset = offset \<rparr>
                   in if offset < 0
                      then Inl (ErrorInstance ''RangeError'' ''start: the offset is negative'', s2)
                      else Inr (s2 \<lparr> outputs := outputs s2 @ [source],
                                      startTimeRef := doubleMinus (currentTime ctx) offset,
                                      audioSourceRef := Some source,
                                      isPlaying := True \<rparr>)))
           | _ \<Rightarrow> Inr s1))"

text \<open>
  The \<open>onended\<close> callback that \<open>playAudio\<close> registers on \<open>source\<close>. It closes over the context
  and the buffer of that call and reads \<open>startTimeRef\<close> when it runs. The context object is
  never replaced once created, so it is the one in \<open>audioContextRef\<close>.
\<close>

definition onended :: "AudioBufferSourceNode \<Rightarrow> App \<Rightarrow> App" where
  "onended source s =
     (case audioContextRef s of
        None \<Rightarrow> s
      | Some ctx \<Rightarrow>
          if doubleMinus (currentTime ctx) (startTimeRef s) \<ge> duration (nodeBuffer source)
          then s \<lparr> isPlaying := False, pausedAtRef := 0 \<rparr>
          else s)"

definition pauseAudio :: "App \<Rightarrow> App" where
  "pauseAudio s =
     (case (audioSourceRef s, audioContextRef s) of
        (Some source, Some ctx) \<Rightarrow>
          s \<lparr> outputs := halt source (outputs s),
              pausedAtRef := doubleMinus (currentTime ctx) (startTimeRef s),
              audioSourceRef := None,
              isPlaying := False \<rparr>
      | _ \<Rightarrow> s)"

definition stopAudio :: "App \<Rightarrow> App" where
  "stopAudio s =
     (let s1 = (case audioSourceRef s of
                  Some source \<Rightarrow> s \<lparr> outputs := halt source (outputs s), audioSourceRef := None \<rparr>
                | None \<Rightarrow> s)
      in s1 \<lparr> pausedAtRef := 0, isPlaying := False \<rparr>)"

text \<open>
  What the engine does on its own: its clock advances, and a sounding node that reaches the
  end of its buffer falls silent and has its \<open>ended\<close> event delivered (a stopped node has
  the event delivered too, by \<open>onended\<close> alone).
\<close>

definition advanceClock :: "real \<Rightarrow> App \<Rightarrow> App" where
  "advanceClock dt s =
     s \<lparr> audioContextRef :=
           map_option (\<lambda>ctx. ctx \<lparr> currentTime := currentTime ctx + dt \<rparr>) (audioContextRef s) \<rparr>"

definition sourceFinished :: "AudioBufferSourceNode \<Rightarrow> App \<Rightarrow> App" where
  "sourceFinished source s = onended source (s \<lparr> outputs := halt source (outputs s) \<rparr>)"

section \<open>App.tsx: handleGenerate\<close>

text \<open>The message the \<open>catch\<close> block of \<open>handleGenerate\<close> derives from what was thrown.\<close>

fun errorMessageOf :: "Thrown \<Rightarrow> string" where
  "errorMessageOf (ErrorInstance name message) = message"
| "errorMessageOf (ThrownString str) = str"
| "errorMessageOf (ThrownObject (Some json)) = json"
| "errorMessageOf (ThrownObject None) = ''An unspecified error occurred.''"
| "errorMessageOf ThrownOther = ''Unknown system failure''"

definition handleGenerateCatch :: "Thrown \<Rightarrow> App \<Rightarrow> App" where
  "handleGenerateCatch err s =
     setState (\<lambda>prev. prev \<lparr> isGenerating := False,
                              error := Some (errorMessageOf err),
                              statusMessage := ''Process Aborted'' \<rparr>) s"

text \<open>
  \<open>handleGenerate\<close> is an async function: it runs until an \<open>await\<close>, hands the call to the
  collaborator, and is resumed with the outcome on whatever the state is by then. Each
  segment between two awaits is a function of its own here; a segment returns the state it
  leaves and the argument of the call it awaits (\<open>None\<close> when the function has returned).

  Segment 1: from the entry to \<open>await generateStoryText(...)\<close>.
\<close>

definition handleGenerateStart :: "App \<Rightarrow> App \<times> (Coordinates \<times> TimeOfDay \<times> Vibe) option" where
  "handleGenerateStart s =
     (case coords (state s) of
        None \<Rightarrow> (s, None)
      | Some c \<Rightarrow>
          (let s1 = stopAudio s;
               s2 = s1 \<lparr> audioBufferRef := None \<rparr>;
               s3 = setState (\<lambda>prev. prev \<lparr> isGenerating := True, error := None,
                                             storyText := None, groundingSources := [] \<rparr>) s2;
               s4 = setState (\<lambda>prev. prev \<lparr> statusMessage := ''Scanning Environment...'' \<rparr>) s3
           in (s4, Some (c, timeOfDay (state s), selectedVibe (state s)))))"

text \<open>Segment 2: from the outcome of \<open>generateStoryText\<close> to \<open>await generateSpeech(...)\<close>.\<close>

definition handleGenerateAfterStory :: "Thrown + StoryResponse \<Rightarrow> App \<Rightarrow> App \<times> string option" where
  "handleGenerateAfterStory outcome s =
     (case outcome of
        Inl err \<Rightarrow> (handleGenerateCatch err s, None)
      | Inr storyResponse \<Rightarrow>
          (setState (\<lambda>prev. prev \<lparr> storyText := Some (storyResponseText storyResponse),
                                    groundingSources := storyResponseSources storyResponse,
                                    statusMessage := ''Synthesizing Voice...'' \<rparr>) s,
           Some (storyResponseText storyResponse)))"

text \<open>Segment 3: from the outcome of \<open>generateSpeech\<close> to \<open>await decodeAndPlay(...)\<close>.\<close>

definition handleGenerateAfterSpeech :: "Env \<Rightarrow> Thrown + string \<Rightarrow> App \<Rightarrow> App \<times> string option" where
  "handleGenerateAfterSpeech env outcome s =
     (case outcome of
        Inl err \<Rightarrow> (handleGenerateCatch err s, None)
      | Inr base64Audio \<Rightarrow>
          (case initAudioContext env s of
             Inl (err, s1) \<Rightarrow> (handleGenerateCatch err s1, None)
           | Inr s1 \<Rightarrow>
               (case audioContextRef s1 of
                  Some ctx \<Rightarrow> (s1, Some base64Audio)
                | None \<Rightarrow>
                    (handleGenerateCatch (ErrorInstance ''Error'' ''Audio system failure'') s1,
                     None))))"

text \<open>Segment 4: from the outcome of \<open>decodeAndPlay\<close> to the end.\<close>

definition handleGenerateAfterDecode :: "Env \<Rightarrow> Thrown + AudioBuffer \<Rightarrow> App \<Rightarrow> App" where
  "handleGenerateAfterDecode env outcome s =
     (case outcome of
        Inl err \<Rightarrow> handleGenerateCatch err s
      | Inr buffer \<Rightarrow>
          (let s1 = s \<lparr> audioBufferRef := Some buffer \<rparr>;
               s2 = setState (\<lambda>prev. prev \<lparr> isGenerating := False,
                                             statusMessage := ''Narrative Ready'' \<rparr>) s1
           in case playAudio env s2 of
                Inl (err, s3) \<Rightarrow> handleGenerateCatch err s3
              | Inr s3 \<Rightarrow> s3))"

text \<open>
  One whole cycle with nothing else running between its segments: the final state and the
  collaborator calls that were issued, in order.
\<close>

datatype Call =
    CallGenerateStoryText Coordinates TimeOfDay Vibe
  | CallGenerateSpeech string
  | CallDecodeAndPlay string

definition handleGenerate :: "Env \<Rightarrow> App \<Rightarrow> App \<times> Call list" where
  "handleGenerate env s =
     (case handleGenerateStart s of
        (s1, None) \<Rightarrow> (s1, [])
      | (s1, Some (c, time, vibe)) \<Rightarrow>
          (case handleGenerateAfterStory (generateStoryText env c time vibe) s1 of
             (s2, None) \<Rightarrow> (s2, [CallGenerateStoryText c time vibe])
           | (s2, Some narrative) \<Rightarrow>
               (case handleGenerateAfterSpeech env (generateSpeech env narrative) s2 of
                  (s3, None) \<Rightarrow>
                    (s3, [CallGenerateStoryText c time vibe, CallGenerateSpeech narrative])
                | (s3, Some base64Audio) \<Rightarrow>
                    (handleGenerateAfterDecode env (decodeAndPlay env base64Audio) s3,
                     [CallGenerateStoryText c time vibe, CallGenerateSpeech narrative,
                      CallDecodeAndPlay base64Audio]))))"

section \<open>App.tsx: what the rendered controls allow\<close>

text \<open>
  The render shows the main button when \<open>!audioBufferRef.current || state.isGenerating\<close>,
  disabled when \<open>state.isGenerating || !state.coords\<close>; otherwise it shows the transport
  controls, whose Regenerate button is never disabled and whose other button calls
  \<open>pauseAudio\<close> when \<open>isPlaying\<close> and \<open>playAudio\<close> when not.
\<close>

definition mainButtonShown :: "App \<Rightarrow> bool" where
  "mainButtonShown s = (audioBufferRef s = None \<or> isGenerating (state s))"



definition playOffered :: "App \<Rightarrow> bool" where
  "playOffered s = (\<not> mainButtonShown s \<and> \<not> isPlaying s)"

definition pauseOffered :: "App \<Rightarrow> bool" where
  "pauseOffered s = (\<not> mainButtonShown s \<and> isPlaying s)"

section \<open>A property of the time bookkeeping\<close>

text \<open>
  The paused offset is never negative, the reading of the engine clock is a double that is
  not negative, and the start reference never lies after it (after 0 while no context
  exists).
\<close>

definition timeInvariant :: "App \<Rightarrow> bool" where
  "timeInvariant s =
     (0 \<le> pausedAtRef s
      \<and> (case audioContextRef s of
            None \<Rightarrow> startTimeRef s \<le> 0
          | Some ctx \<Rightarrow>
              0 \<le> currentTime ctx \<and> toDouble (currentTime ctx) = currentTime ctx
              \<and> startTimeRef s \<le> currentTime ctx))"

section \<open>Call sequences and sample data used in the statements below\<close>

text \<open>\<open>play()\<close> twice in a row, and \<open>play()\<close> followed at once by \<open>pause()\<close>.\<close>

definition playTwice :: "Env \<Rightarrow> App \<Rightarrow> (Thrown \<times> App) + App" where
  "playTwice env s =
     (case playAudio env s of
        Inl failure \<Rightarrow> Inl failure
      | Inr s1 \<Rightarrow> playAudio env s1)"

definition playThenPause :: "Env \<Rightarrow> App \<Rightarrow> (Thrown \<times> App) + App" where
  "playThenPause env s =
     (case playAudio env s of
        Inl failure \<Rightarrow> Inl failure
      | Inr s1 \<Rightarrow> Inr (pauseAudio s1))"

text \<open>
  A payload that consists of the 16-bit samples \<open>vs\<close>, low byte first. This follows the
  wording of the specification, not the source; the source's reading of a payload is
  \<open>int16Pairs\<close>.
\<close>

definition littleEndianPayload :: "16 word list \<Rightarrow> byte list" where
  "littleEndianPayload vs = concat (map (\<lambda>v. [ucast v, ucast (drop_bit 8 v)]) vs)"

text \<open>
  A sample environment. Its \<open>atob\<close> agrees with base64 on the three strings it knows; its
  container decoder rejects everything, as it does headerless PCM.
\<close>

definition exampleAtob :: "string \<Rightarrow> byte list option" where
  "exampleAtob str =
     (if str = [] then Some []
      else if str = ''AQID'' then Some [1, 2, 3]
      else if str = ''AID/fw=='' then Some [0, 128, 255, 127]
      else None)"

definition exampleEnv :: Env where
  "exampleEnv =
     \<lparr> storyModel = (\<lambda>c time vibe. Inr \<lparr> responseText = Some ''Fog rolls in.'',
                                           groundingChunks = None \<rparr>),
       speechModel = (\<lambda>narrative. Inr (Some ''AID/fw=='')),
       atob = exampleAtob,
       decodeAudioData = (\<lambda>bytes. None),
       newAudioContext = Some \<lparr> currentTime = 0, suspended = True \<rparr> \<rparr>"

definition exampleBuffer :: AudioBuffer where
  "exampleBuffer = \<lparr> numberOfChannels = 1, frameCount = 4, sampleRate = 8192,
                      channelData = [[0, 1 / 2, 0, - 1 / 2]] \<rparr>"

text \<open>A fix has arrived (the coordinates of constants.ts) and nothing has been generated yet.\<close>

definition exampleCoords :: Coordinates where
  "exampleCoords = \<lparr> latitude = 37.7749, longitude = - 122.4194 \<rparr>"

definition readyApp :: App where
  "readyApp =
     setState (\<lambda>prev. prev \<lparr> coords := Some exampleCoords,
                              statusMessage := ''Ready to Weave'', error := None \<rparr>) initialApp"

text \<open>A narrative is loaded and paused a quarter of the way in; the clock reads 5.\<close>

definition loadedApp :: App where
  "loadedApp =
     readyApp \<lparr> audioContextRef := Some \<lparr> currentTime = 5, suspended = False \<rparr>,
                audioBufferRef := Some exampleBuffer,
                pausedAtRef := 1 / 8192 \<rparr>"




text \<open>\<open>loadedApp\<close> after \<open>play()\<close>: one source sounds, started at the paused offset.\<close>

definition exampleSource :: AudioBufferSourceNode where
  "exampleSource = \<lparr> nodeId = 0, nodeBuffer = exampleBuffer, startOffset = 1 / 8192 \<rparr>"

definition playingApp :: App where
  "playingApp =
     loadedApp \<lparr> isPlaying := True, audioSourceRef := Some exampleSource,
                 startTimeRef := 5 - 1 / 8192, outputs := [exampleSource],
                 nodesCreated := 1 \<rparr>"

text \<open>
  \<open>loadedApp\<close> paused at the double nearest to 0.000125, which is
  \<open>1152921504606847 / 2^63\<close>.
\<close>

definition driftApp :: App where
  "driftApp = loadedApp \<lparr> pausedAtRef := 1152921504606847 / 9223372036854775808 \<rparr>"

text \<open>Environments in which one collaborator fails.\<close>

definition storyFailsEnv :: Env where
  "storyFailsEnv = exampleEnv \<lparr> storyModel := (\<lambda>c time vibe. Inl (ThrownString ''503'')) \<rparr>"

definition speechFailsEnv :: Env where
  "speechFailsEnv = exampleEnv \<lparr> speechModel := (\<lambda>narrative. Inr None) \<rparr>"

definition noAudioEnv :: Env where
  "noAudioEnv = exampleEnv \<lparr> newAudioContext := None \<rparr>"

definition decodeFailsEnv :: Env where
  "decodeFailsEnv = exampleEnv \<lparr> speechModel := (\<lambda>narrative. Inr (Some ''AQID'')) \<rparr>"

text \<open>A text model that answers with an empty text and three grounding chunks.\<close>

definition silentResponse :: GenerateContentResponse where
  "silentResponse =
     \<lparr> responseText = Some [],
       groundingChunks = Some
         [\<lparr> web = Some \<lparr> webTitle = Some ''Ferry Building'', webUri = Some ''https://a.example'' \<rparr>,
            maps = None \<rparr>,
          \<lparr> web = None,
            maps = Some \<lparr> mapsTitle = None, mapsUri = Some ''https://b.example'' \<rparr> \<rparr>,
          \<lparr> web = None, maps = None \<rparr>] \<rparr>"

definition silentEnv :: Env where
  "silentEnv = exampleEnv \<lparr> storyModel := (\<lambda>c time vibe. Inr silentResponse) \<rparr>"

section \<open>The PCM fallback of decodeAndPlay\<close>

lemma le16_roundtrip:
  "push_bit 8 (ucast (ucast (drop_bit 8 w) :: byte)) OR ucast (ucast w :: byte) = (w :: 16 word)"
  by (rule bit_word_eqI) (auto simp: bit_simps)

lemma int16Pairs_littleEndianPayload: "int16Pairs (littleEndianPayload vs) = vs"
  by (induction vs) (simp_all add: littleEndianPayload_def le16_roundtrip)

lemma length_littleEndianPayload: "length (littleEndianPayload vs) = 2 * length vs"
  by (induction vs) (simp_all add: littleEndianPayload_def)

lemma length_int16Pairs: "length (int16Pairs bytes) = length bytes div 2"
  by (induction bytes rule: int16Pairs.induct) simp_all

lemma fillChannel_from:
  "i \<le> frames \<Longrightarrow> length channel = frames \<Longrightarrow> length dataInt16 = frames \<Longrightarrow>
   fillChannel dataInt16 frames i channel =
     take i channel @ map (\<lambda>w. real_of_int (sint w) / 32768) (drop i dataInt16)"
proof (induction dataInt16 frames i channel rule: fillChannel.induct)
  case (1 dataInt16 frames i channel)
  show ?case
  proof (cases "i < frames")
    case True
    with 1 show ?thesis
      by (subst fillChannel.simps)
         (simp add: take_Suc_conv_app_nth Cons_nth_drop_Suc [symmetric] upd_conv_take_nth_drop)
  next
    case False
    with 1 show ?thesis
      by (subst fillChannel.simps) simp
  qed
qed

lemma pcmFallback_even:
  assumes "even (length bytes)" and "bytes \<noteq> []"
  shows "pcmFallback bytes =
           Inr \<lparr> numberOfChannels = 1, frameCount = length bytes div 2, sampleRate = 24000,
                 channelData = [map (\<lambda>w. real_of_int (sint w) / 32768) (int16Pairs bytes)] \<rparr>"
proof -
  from assms have "2 \<le> length bytes"
    by (cases bytes) (auto simp: Suc_le_eq)
  then have pos: "0 < length bytes div 2" by simp
  have fill: "fillChannel (int16Pairs bytes) (length bytes div 2) 0 (replicate (length bytes div 2) 0)
      = map (\<lambda>w. real_of_int (sint w) / 32768) (int16Pairs bytes)"
    by (simp add: fillChannel_from length_int16Pairs)
  show ?thesis
    using assms(1) pos
    by (simp add: pcmFallback_def newInt16Array_def createBuffer_def length_int16Pairs fill)
qed

lemma pcmFallback_odd:
  "odd (length bytes) \<Longrightarrow>
   pcmFallback bytes =
     Inl (ErrorInstance ''RangeError'' ''byte length of Int16Array should be a multiple of 2'')"
  by (simp add: pcmFallback_def newInt16Array_def)

lemma pcmFallback_empty:
  "pcmFallback [] =
     Inl (ErrorInstance ''NotSupportedError'' ''createBuffer: argument outside its nominal range'')"
  by (simp add: pcmFallback_def newInt16Array_def createBuffer_def)

text \<open>
  Claim C2, as amended. A payload made of \<open>N \<ge> 1\<close> 16-bit little-endian samples that the
  container decoder rejects is decoded by the fallback into a one-channel buffer at 24000 Hz
  with \<open>floor (bytes / 2) = N\<close> frames, frame \<open>i\<close> being sample \<open>i\<close> read as a signed
  integer and divided by 32768 (exactly: the quotient needs no rounding).
\<close>

theorem fallback_decodes_samples:
  assumes "atob env base64Data = Some (littleEndianPayload vs)"
    and "decodeAudioData env (littleEndianPayload vs) = None"
    and "vs \<noteq> []"
  shows "decodeAndPlay env base64Data =
           Inr \<lparr> numberOfChannels = 1,
                 frameCount = length (littleEndianPayload vs) div 2,
                 sampleRate = 24000,
                 channelData = [map (\<lambda>v. real_of_int (sint v) / 32768) vs] \<rparr>
         \<and> length (littleEndianPayload vs) div 2 = length vs"
proof -
  have "even (length (littleEndianPayload vs))"
    by (simp add: length_littleEndianPayload)
  moreover have "littleEndianPayload vs \<noteq> []"
    using assms(3) by (cases vs) (simp_all add: littleEndianPayload_def)
  ultimately show ?thesis
    using assms(1,2)
    by (simp add: decodeAndPlay_def pcmFallback_even int16Pairs_littleEndianPayload
        length_littleEndianPayload)
qed

lemma payload_example: "littleEndianPayload [32768, 32767] = [0, 128, 255, 127]"
  by (simp add: littleEndianPayload_def)

text \<open>The two samples \<open>-32768\<close> and \<open>32767\<close> decode to \<open>-1\<close> and \<open>32767 / 32768\<close>.\<close>

theorem fallback_decodes_samples_witness:
  "decodeAndPlay exampleEnv ''AID/fw=='' =
     Inr \<lparr> numberOfChannels = 1, frameCount = 2, sampleRate = 24000,
           channelData = [[- 1, 32767 / 32768]] \<rparr>"
  using fallback_decodes_samples [of exampleEnv "''AID/fw==''" "[32768, 32767]"]
  by (simp add: payload_example exampleEnv_def exampleAtob_def)

text \<open>
  Claim C2 as first stated also covers \<open>N = 0\<close>. There the fallback returns no buffer:
  \<open>createBuffer\<close> refuses a length of zero frames.
\<close>

theorem fallback_empty_counterexample:
  "atob exampleEnv [] = Some (littleEndianPayload [])
   \<and> decodeAudioData exampleEnv (littleEndianPayload []) = None
   \<and> decodeAndPlay exampleEnv [] =
       Inl (ErrorInstance ''NotSupportedError'' ''createBuffer: argument outside its nominal range'')"
  by (simp add: decodeAndPlay_def pcmFallback_empty exampleEnv_def exampleAtob_def
      littleEndianPayload_def)

text \<open>
  Claim C3, as amended. An empty or odd-length payload that reaches the fallback yields no
  buffer: the 16-bit view of an odd number of bytes throws a RangeError (the trailing byte is
  not dropped), and an empty payload has \<open>createBuffer\<close> throw NotSupportedError for its
  zero frames.
\<close>

theorem fallback_rejects_empty_and_odd:
  assumes "atob env base64Data = Some bytes"
    and "decodeAudioData env bytes = None"
    and "bytes = [] \<or> odd (length bytes)"
  shows "decodeAndPlay env base64Data =
           Inl (if odd (length bytes)
                then ErrorInstance ''RangeError'' ''byte length of Int16Array should be a multiple of 2''
                else ErrorInstance ''NotSupportedError'' ''createBuffer: argument outside its nominal range'')"
  using assms
  by (auto simp: decodeAndPlay_def pcmFallback_odd pcmFallback_empty)

theorem fallback_rejects_empty_and_odd_witness:
  "decodeAndPlay exampleEnv ''AQID'' =
     Inl (ErrorInstance ''RangeError'' ''byte length of Int16Array should be a multiple of 2'')"
  using fallback_rejects_empty_and_odd [of exampleEnv "''AQID''" "[1, 2, 3]"]
  by (simp add: exampleEnv_def exampleAtob_def)

text \<open>
  Claim C3 as first stated has a three-byte payload truncated to one frame without an
  error. The code throws instead.
\<close>

theorem fallback_odd_counterexample:
  "atob exampleEnv ''AQID'' = Some [1, 2, 3]
   \<and> decodeAudioData exampleEnv [1, 2, 3] = None
   \<and> odd (length [1, 2, 3 :: byte])
   \<and> decodeAndPlay exampleEnv ''AQID'' =
       Inl (ErrorInstance ''RangeError'' ''byte length of Int16Array should be a multiple of 2'')"
  by (simp add: decodeAndPlay_def pcmFallback_odd exampleEnv_def exampleAtob_def)

section \<open>Rounding to the nearest double\<close>

lemma roundHalfEven_error: "\<bar>of_int (roundHalfEven z) - z\<bar> \<le> 1 / 2"
  unfolding roundHalfEven_def Let_def by (auto simp: abs_le_iff)

lemma roundHalfEven_of_int [simp]: "roundHalfEven (of_int m) = m"
  by (simp add: roundHalfEven_def)

lemma roundHalfEven_le: "z \<le> of_int m \<Longrightarrow> roundHalfEven z \<le> m"
  unfolding roundHalfEven_def Let_def
  by (auto simp: le_floor_iff floor_le_iff)

lemma roundHalfEven_nonneg: "0 \<le> z \<Longrightarrow> 0 \<le> roundHalfEven z"
  unfolding roundHalfEven_def Let_def by auto

lemma roundHalfEven_nonpos: "z \<le> 0 \<Longrightarrow> roundHalfEven z \<le> 0"
  using roundHalfEven_le [of z 0] by simp

text \<open>The result is within half a spacing of the exact value and keeps its sign.\<close>

lemma toDouble_error: "\<bar>toDouble x - x\<bar> \<le> 2 powi quantumExponent x / 2"
proof (cases "x = 0")
  case True
  then show ?thesis by (simp add: toDouble_def)
next
  case False
  define q :: real where "q = 2 powi quantumExponent x"
  have q: "0 < q" by (simp add: q_def)
  have "\<bar>of_int (roundHalfEven (x / q)) - x / q\<bar> \<le> 1 / 2" by (rule roundHalfEven_error)
  then have "\<bar>of_int (roundHalfEven (x / q)) - x / q\<bar> * q \<le> 1 / 2 * q"
    using q by (intro mult_right_mono) simp_all
  moreover have "\<bar>of_int (roundHalfEven (x / q)) - x / q\<bar> * q = \<bar>of_int (roundHalfEven (x / q)) * q - x\<bar>"
  proof -
    have "\<bar>of_int (roundHalfEven (x / q)) - x / q\<bar> * q = \<bar>(of_int (roundHalfEven (x / q)) - x / q) * q\<bar>"
      using q by (simp add: abs_mult)
    also have "(of_int (roundHalfEven (x / q)) - x / q) * q = of_int (roundHalfEven (x / q)) * q - x"
      using q by (simp add: algebra_simps)
    finally show ?thesis .
  qed
  ultimately have "\<bar>of_int (roundHalfEven (x / q)) * q - x\<bar> \<le> q / 2"
    by simp
  then show ?thesis
    using False by (simp only: toDouble_def q_def if_False)
qed

lemma toDouble_nonneg: "0 \<le> x \<Longrightarrow> 0 \<le> toDouble x"
  by (simp add: toDouble_def roundHalfEven_nonneg)

lemma toDouble_nonpos: "x \<le> 0 \<Longrightarrow> toDouble x \<le> 0"
  by (simp add: toDouble_def roundHalfEven_nonpos mult_le_0_iff divide_le_0_iff)

lemma two_powr_int: "2 powr real_of_int k = (2::real) powi k"
  by (simp add: powr_real_of_int')

lemma two_powr_int_succ: "2 powr (real_of_int k + 1) = (2::real) powi (k + 1)"
  using two_powr_int [of "k + 1"] by simp

lemma binade_of:
  assumes "x \<noteq> 0"
  shows "2 powi \<lfloor>log 2 \<bar>x\<bar>\<rfloor> \<le> \<bar>x\<bar>" and "\<bar>x\<bar> < 2 powi (\<lfloor>log 2 \<bar>x\<bar>\<rfloor> + 1)"
proof -
  from assms have pos: "0 < \<bar>x\<bar>" by simp
  have "2 powr real_of_int \<lfloor>log 2 \<bar>x\<bar>\<rfloor> \<le> \<bar>x\<bar>
        \<and> \<bar>x\<bar> < 2 powr (real_of_int \<lfloor>log 2 \<bar>x\<bar>\<rfloor> + 1)"
    using floor_log_eq_powr_iff [OF pos, of 2 "\<lfloor>log 2 \<bar>x\<bar>\<rfloor>"] by simp
  then show "2 powi \<lfloor>log 2 \<bar>x\<bar>\<rfloor> \<le> \<bar>x\<bar>" and "\<bar>x\<bar> < 2 powi (\<lfloor>log 2 \<bar>x\<bar>\<rfloor> + 1)"
    by (simp_all only: two_powr_int two_powr_int_succ)
qed

lemma floor_log_binade:
  assumes "2 powi E \<le> \<bar>x\<bar>" and "\<bar>x\<bar> < 2 powi (E + 1)"
  shows "\<lfloor>log 2 \<bar>x\<bar>\<rfloor> = E"
proof -
  have pos: "0 < \<bar>x\<bar>"
    using assms(1) by (rule less_le_trans [rotated]) simp
  have "2 powr real_of_int E \<le> \<bar>x\<bar> \<and> \<bar>x\<bar> < 2 powr (real_of_int E + 1)"
    using assms by (simp only: two_powr_int two_powr_int_succ)
  then show ?thesis
    using floor_log_eq_powr_iff [OF pos, of 2 E] by simp
qed

lemma quantumExponent_binade:
  assumes "2 powi E \<le> \<bar>x\<bar>" and "\<bar>x\<bar> < 2 powi (E + 1)" and "- 1022 \<le> E"
  shows "quantumExponent x = E - 52"
  using assms(3) by (simp add: quantumExponent_def floor_log_binade [OF assms(1,2)])

lemma quantumExponent_mono:
  assumes "0 < y" and "y \<le> d"
  shows "quantumExponent y \<le> quantumExponent d"
proof -
  from assms have "log 2 \<bar>y\<bar> \<le> log 2 \<bar>d\<bar>" by simp
  then have "\<lfloor>log 2 \<bar>y\<bar>\<rfloor> \<le> \<lfloor>log 2 \<bar>d\<bar>\<rfloor>" by (rule floor_mono)
  then show ?thesis by (simp add: quantumExponent_def)
qed

lemma two_powi_diff_nat:
  assumes "(a::int) \<le> b"
  shows "(2::real) powi b = 2 ^ nat (b - a) * 2 powi a"
proof -
  have "(2::real) powi b = 2 powi ((b - a) + a)"
    by simp
  also have "\<dots> = 2 powi (b - a) * 2 powi a"
    by (rule power_int_add) simp
  also have "(2::real) powi (b - a) = 2 ^ nat (b - a)"
    using assms by (simp add: power_int_def)
  finally show ?thesis .
qed

text \<open>A multiple of a spacing at least as coarse as the one around it is not moved.\<close>

lemma toDouble_multiple:
  assumes "x \<noteq> 0" and "quantumExponent x \<le> e" and eq: "x = of_int m * 2 powi e"
  shows "toDouble (of_int m * 2 powi e) = of_int m * 2 powi e"
proof -
  define E where "E = quantumExponent x"
  have q: "(2::real) powi e = 2 ^ nat (e - E) * 2 powi E"
    using assms(2) unfolding E_def by (rule two_powi_diff_nat)
  have "x / 2 powi E = of_int (m * 2 ^ nat (e - E))"
    using eq by (simp add: q)
  then have r: "roundHalfEven (x / 2 powi E) = m * 2 ^ nat (e - E)"
    by (simp only: roundHalfEven_of_int)
  have "toDouble x = of_int (roundHalfEven (x / 2 powi E)) * 2 powi E"
    using assms(1) by (simp add: toDouble_def E_def)
  also have "\<dots> = of_int (m * 2 ^ nat (e - E)) * 2 powi E"
    by (simp only: r)
  also have "\<dots> = of_int m * 2 powi e"
    by (simp add: q)
  finally show ?thesis by (simp only: eq)
qed

text \<open>The doubles: an integer below \<open>2^53\<close> in magnitude times a power of two from \<open>2^-1074\<close>.\<close>

lemma toDouble_exact:
  assumes "\<bar>m\<bar> < 2 ^ 53" and "- 1074 \<le> e"
  shows "toDouble (of_int m * 2 powi e) = of_int m * 2 powi e"
proof (cases "m = 0")
  case True
  then show ?thesis by (simp add: toDouble_def)
next
  case False
  define x :: real where "x = of_int m * 2 powi e"
  have x0: "x \<noteq> 0" using False by (simp add: x_def)
  define L where "L = \<lfloor>log 2 \<bar>x\<bar>\<rfloor>"
  have "real_of_int \<bar>m\<bar> < 2 ^ 53"
    using assms(1) by (metis of_int_less_numeral_power_cancel_iff)
  then have "\<bar>x\<bar> < 2 ^ 53 * 2 powi e"
    by (simp add: x_def abs_mult)
  also have "\<dots> = 2 powi (e + 53)"
    by (simp add: power_int_add)
  finally have up: "\<bar>x\<bar> < 2 powi (e + 53)" .
  have "2 powi L \<le> \<bar>x\<bar>"
    unfolding L_def using x0 by (rule binade_of)
  with up have "(2::real) powi L < 2 powi (e + 53)" by simp
  then have "L < e + 53"
    by (metis not_le one_le_numeral power_int_increasing)
  with assms(2) have "quantumExponent x \<le> e"
    by (simp add: quantumExponent_def L_def)
  from toDouble_multiple [OF x0 this x_def] show ?thesis .
qed

lemma toDouble_dyadic:
  assumes "\<bar>m\<bar> < 2 ^ 53" and "n \<le> 1074"
  shows "toDouble (of_int m / 2 ^ n) = of_int m / 2 ^ n"
proof -
  have "of_int m / 2 ^ n = (of_int m :: real) * 2 powi (- int n)"
    by (simp add: power_int_minus field_simps)
  moreover have "- 1074 \<le> - int n" using assms(2) by simp
  ultimately show ?thesis
    using toDouble_exact [OF assms(1), of "- int n"] by simp
qed

text \<open>Rounding does not step over a double that is not negative.\<close>

lemma toDouble_le_double:
  assumes "toDouble d = d" and "y \<le> d" and "0 \<le> d"
  shows "toDouble y \<le> d"
proof (cases "y \<le> 0")
  case True
  then have "toDouble y \<le> 0" by (rule toDouble_nonpos)
  with assms(3) show ?thesis by simp
next
  case False
  then have y: "0 < y" by simp
  with assms(2) have d: "0 < d" by simp
  define Ey where "Ey = quantumExponent y"
  define Ed where "Ed = quantumExponent d"
  have le: "Ey \<le> Ed"
    unfolding Ey_def Ed_def using y assms(2) by (rule quantumExponent_mono)
  define md where "md = roundHalfEven (d / 2 powi Ed)"
  have dm: "d = of_int md * 2 powi Ed"
    using assms(1) d by (simp add: toDouble_def md_def Ed_def)
  have q: "(2::real) powi Ed = 2 ^ nat (Ed - Ey) * 2 powi Ey"
    using le by (rule two_powi_diff_nat)
  have dM: "d / 2 powi Ey = of_int (md * 2 ^ nat (Ed - Ey))"
    by (subst dm) (simp add: q)
  have "y / 2 powi Ey \<le> d / 2 powi Ey"
    using assms(2) by (intro divide_right_mono) simp_all
  then have "roundHalfEven (y / 2 powi Ey) \<le> md * 2 ^ nat (Ed - Ey)"
    unfolding dM by (rule roundHalfEven_le)
  then have "real_of_int (roundHalfEven (y / 2 powi Ey)) \<le> real_of_int (md * 2 ^ nat (Ed - Ey))"
    by (simp only: of_int_le_iff)
  then have "of_int (roundHalfEven (y / 2 powi Ey)) * 2 powi Ey
               \<le> real_of_int (md * 2 ^ nat (Ed - Ey)) * 2 powi Ey"
    by (intro mult_right_mono) simp_all
  also have "\<dots> = of_int md * 2 powi Ed"
    by (simp add: q)
  also have "\<dots> = d"
    by (simp only: dm [symmetric])
  finally show ?thesis
    using y by (simp add: toDouble_def Ey_def)
qed

text \<open>The error as a relative bound, with the subnormal spacing as the absolute part.\<close>

lemma toDouble_error_bound: "\<bar>toDouble x - x\<bar> \<le> \<bar>x\<bar> / 2 ^ 53 + 2 powi (- 1075)"
proof (cases "x = 0")
  case True
  then show ?thesis by (simp add: toDouble_def)
next
  case False
  define L where "L = \<lfloor>log 2 \<bar>x\<bar>\<rfloor>"
  have low: "2 powi L \<le> \<bar>x\<bar>"
    unfolding L_def using False by (rule binade_of)
  have "(2::real) powi quantumExponent x \<le> \<bar>x\<bar> / 2 ^ 52 + 2 powi (- 1074)"
  proof (cases "L - 52 \<le> - 1074")
    case True
    then have "quantumExponent x = - 1074" by (simp add: quantumExponent_def L_def)
    then show ?thesis by simp
  next
    case False
    then have qe: "quantumExponent x = L - 52" by (simp add: quantumExponent_def L_def)
    have "(2::real) powi (L - 52) = 2 powi L / 2 ^ 52"
      by (simp add: power_int_diff)
    moreover have "(2::real) powi L / 2 ^ 52 \<le> \<bar>x\<bar> / 2 ^ 52"
      using low by (intro divide_right_mono) simp_all
    moreover have "(0::real) \<le> 2 powi (- 1074)" by simp
    ultimately have "(2::real) powi (L - 52) \<le> \<bar>x\<bar> / 2 ^ 52 + 2 powi (- 1074)"
      by linarith
    then show ?thesis by (simp only: qe)
  qed
  then have "(2::real) powi quantumExponent x / 2 \<le> (\<bar>x\<bar> / 2 ^ 52 + 2 powi (- 1074)) / 2"
    by (intro divide_right_mono) simp_all
  also have "\<dots> = \<bar>x\<bar> / 2 ^ 53 + 2 powi (- 1075)"
    by (simp add: power_int_minus field_simps)
  finally show ?thesis
    using toDouble_error [of x] by linarith
qed

lemma doubleMinus_error:
  "\<bar>doubleMinus x y - (x - y)\<bar> \<le> \<bar>x - y\<bar> / 2 ^ 53 + 2 powi (- 1075)"
  unfolding doubleMinus_def by (rule toDouble_error_bound)

section \<open>Facts about the sample data\<close>

lemma duration_exampleBuffer: "duration exampleBuffer = 1 / 2048"
  using toDouble_dyadic [of 1 11] by (simp add: duration_def exampleBuffer_def)

lemma loadedApp_fields:
  "audioContextRef loadedApp = Some \<lparr> currentTime = 5, suspended = False \<rparr>"
  "audioBufferRef loadedApp = Some exampleBuffer"
  "pausedAtRef loadedApp = 1 / 8192"
  "outputs loadedApp = []"
  "nodesCreated loadedApp = 0"
  "audioSourceRef loadedApp = None"
  "isGenerating (state loadedApp) = False"
  by (simp_all add: loadedApp_def readyApp_def initialApp_def setState_def)

lemma driftApp_fields:
  "audioContextRef driftApp = Some \<lparr> currentTime = 5, suspended = False \<rparr>"
  "audioBufferRef driftApp = Some exampleBuffer"
  "pausedAtRef driftApp = 1152921504606847 / 9223372036854775808"
  by (simp_all add: driftApp_def loadedApp_fields)

lemma playingApp_fields:
  "coords (state playingApp) = Some exampleCoords"
  "timeOfDay (state playingApp) = MORNING"
  "selectedVibe (state playingApp) = MYSTERIOUS"
  "audioSourceRef playingApp = Some exampleSource"
  "audioContextRef playingApp = Some \<lparr> currentTime = 5, suspended = False \<rparr>"
  "outputs playingApp = [exampleSource]"
  "startTimeRef playingApp = 40959 / 8192"
  "pausedAtRef playingApp = 1 / 8192"
  "audioBufferRef playingApp = Some exampleBuffer"
  "isPlaying playingApp"
  by (simp_all add: playingApp_def loadedApp_def readyApp_def initialApp_def setState_def)

lemma readyApp_fields:
  "coords (state readyApp) = Some exampleCoords"
  "timeOfDay (state readyApp) = MORNING"
  "selectedVibe (state readyApp) = MYSTERIOUS"
  "audioContextRef readyApp = None"
  by (simp_all add: readyApp_def initialApp_def setState_def)

lemma example_env_fields:
  "storyModel speechFailsEnv = storyModel exampleEnv"
  "storyModel noAudioEnv = storyModel exampleEnv"
  "storyModel decodeFailsEnv = storyModel exampleEnv"
  "speechModel noAudioEnv = speechModel exampleEnv"
  "newAudioContext noAudioEnv = None"
  "newAudioContext decodeFailsEnv \<noteq> None"
  "atob decodeFailsEnv = atob exampleEnv"
  "decodeAudioData decodeFailsEnv = decodeAudioData exampleEnv"
  by (simp_all add: speechFailsEnv_def noAudioEnv_def decodeFailsEnv_def exampleEnv_def)

lemma example_outcomes:
  "generateStoryText storyFailsEnv c time vibe = Inl storyFailure"
  "generateStoryText exampleEnv c time vibe
     = Inr \<lparr> storyResponseText = ''Fog rolls in.'', storyResponseSources = [] \<rparr>"
  "generateSpeech speechFailsEnv narrative = Inl speechFailure"
  "generateSpeech exampleEnv narrative = Inr ''AID/fw==''"
  "generateSpeech decodeFailsEnv narrative = Inr ''AQID''"
  "decodeAndPlay exampleEnv ''AQID''
     = Inl (ErrorInstance ''RangeError'' ''byte length of Int16Array should be a multiple of 2'')"
  by (simp_all add: generateStoryText_def generateSpeech_def storyFailsEnv_def speechFailsEnv_def
      decodeFailsEnv_def exampleEnv_def orElse_def extractSources_def decodeAndPlay_def
      exampleAtob_def pcmFallback_odd)

text \<open>
  The subtractions of the sample runs. The first four have a double as their exact result;
  the fifth has not and is rounded up in the binade from 4 to 8, where the doubles are
  \<open>2^-50\<close> apart.
\<close>

lemma sample_differences:
  "doubleMinus 5 (1 / 8192) = 40959 / 8192"
  "doubleMinus 5 (40959 / 8192) = 1 / 8192"
  "doubleMinus 6 (40959 / 8192) = 8193 / 8192"
  "doubleMinus (20481 / 4096) (40959 / 8192) = 3 / 8192"
  using toDouble_dyadic [of 40959 13] toDouble_dyadic [of 1 13] toDouble_dyadic [of 8193 13]
    toDouble_dyadic [of 3 13]
  by (simp_all add: doubleMinus_def)

lemma drift_start:
  "doubleMinus 5 (1152921504606847 / 9223372036854775808)
     = 5629358796724765 / 1125899906842624"
proof -
  define x :: real where "x = 5 - 1152921504606847 / 2 ^ 63"
  have "2 powi 2 \<le> \<bar>x\<bar>" "\<bar>x\<bar> < 2 powi (2 + 1)"
    by (simp_all add: x_def)
  then have q: "quantumExponent x = - 50"
    using quantumExponent_binade [of 2 x] by simp
  have "x \<noteq> 0" by (simp add: x_def)
  moreover have "roundHalfEven (x / 2 powi (- 50)) = 5629358796724765"
    by (simp add: x_def roundHalfEven_def Let_def power_int_minus)
  ultimately have "toDouble x = of_int 5629358796724765 * 2 powi (- 50)"
    by (simp only: toDouble_def q if_False)
  then show ?thesis
    by (simp add: doubleMinus_def x_def power_int_minus field_simps)
qed

lemma sample_remainder: "remainder (9 / 8192) (1 / 2048) = 1 / 8192"
  by (simp add: remainder_def truncate_def)

lemma drift_pause:
  "doubleMinus 5 (5629358796724765 / 1125899906842624) = 140737488355 / 1125899906842624"
  using toDouble_dyadic [of 140737488355 50] by (simp add: doubleMinus_def)

lemma currentTime_resumeIfSuspended [simp]:
  "currentTime (resumeIfSuspended ctx) = currentTime ctx"
  by (simp add: resumeIfSuspended_def)

section \<open>The time bookkeeping stays in range\<close>

text \<open>
  Every operation of the playback controller, and the engine clock moving forward to another
  double, keeps \<open>timeInvariant\<close>; it holds when the component mounts. So the paused offset
  handed to \<open>playAudio\<close> is never negative.
\<close>

lemma timeInvariant_initialApp: "timeInvariant initialApp"
  by (simp add: timeInvariant_def initialApp_def)

lemma doubleMinus_le_clock:
  "toDouble c = c \<Longrightarrow> 0 \<le> c \<Longrightarrow> 0 \<le> offset \<Longrightarrow> doubleMinus c offset \<le> c"
  unfolding doubleMinus_def by (rule toDouble_le_double) simp_all

lemma doubleMinus_nonneg: "st \<le> c \<Longrightarrow> 0 \<le> doubleMinus c st"
  unfolding doubleMinus_def by (rule toDouble_nonneg) simp

lemma timeInvariant_initAudioContext:
  assumes "timeInvariant s"
    and "\<forall>ctx. newAudioContext env = Some ctx
           \<longrightarrow> 0 \<le> currentTime ctx \<and> toDouble (currentTime ctx) = currentTime ctx"
    and "initAudioContext env s = Inr s1"
  shows "timeInvariant s1"
    and "pausedAtRef s1 = pausedAtRef s" and "audioBufferRef s1 = audioBufferRef s"
  using assms
  by (auto simp add: timeInvariant_def initAudioContext_def resumeIfSuspended_def
      split: option.splits if_splits)

lemma timeInvariant_playAudio:
  assumes "timeInvariant s"
    and "\<forall>ctx. newAudioContext env = Some ctx
           \<longrightarrow> 0 \<le> currentTime ctx \<and> toDouble (currentTime ctx) = currentTime ctx"
    and "playAudio env s = Inr s1"
  shows "timeInvariant s1"
proof (cases "initAudioContext env s")
  case (Inl failure)
  with assms(3) show ?thesis by (simp add: playAudio_def)
next
  case (Inr s0)
  note inv0 = timeInvariant_initAudioContext(1) [OF assms(1,2) Inr]
  show ?thesis
  proof (cases "audioContextRef s0")
    case None
    with assms(3) Inr inv0 show ?thesis by (simp add: playAudio_def)
  next
    case (Some ctx)
    with inv0 have clock: "0 \<le> currentTime ctx" "toDouble (currentTime ctx) = currentTime ctx"
      and paused: "0 \<le> pausedAtRef s0"
      by (simp_all add: timeInvariant_def)
    show ?thesis
    proof (cases "audioBufferRef s0")
      case None
      with assms(3) Inr Some inv0 show ?thesis by (simp add: playAudio_def)
    next
      case (Some buffer)
      from assms(3) Inr \<open>audioContextRef s0 = Some ctx\<close> Some
      have off: "0 \<le> remainder (pausedAtRef s0) (duration buffer)"
        and s1: "s1 = s0 \<lparr> nodesCreated := Suc (nodesCreated s0),
                           outputs := outputs s0 @
                             [\<lparr> nodeId = nodesCreated s0, nodeBuffer = buffer,
                                startOffset = remainder (pausedAtRef s0) (duration buffer) \<rparr>],
                           startTimeRef :=
                             doubleMinus (currentTime ctx) (remainder (pausedAtRef s0) (duration buffer)),
                           audioSourceRef :=
                             Some \<lparr> nodeId = nodesCreated s0, nodeBuffer = buffer,
                                    startOffset = remainder (pausedAtRef s0) (duration buffer) \<rparr>,
                           isPlaying := True \<rparr>"
        by (auto simp add: playAudio_def Let_def split: if_splits)
      from doubleMinus_le_clock [OF clock(2,1) off] clock paused
      show ?thesis
        by (simp add: s1 timeInvariant_def \<open>audioContextRef s0 = Some ctx\<close>)
    qed
  qed
qed

lemma timeInvariant_pauseAudio: "timeInvariant s \<Longrightarrow> timeInvariant (pauseAudio s)"
  by (auto simp add: timeInvariant_def pauseAudio_def doubleMinus_nonneg split: option.splits)

lemma timeInvariant_stopAudio: "timeInvariant s \<Longrightarrow> timeInvariant (stopAudio s)"
  by (auto simp add: timeInvariant_def stopAudio_def split: option.splits)

lemma timeInvariant_onended: "timeInvariant s \<Longrightarrow> timeInvariant (onended source s)"
  by (auto simp add: timeInvariant_def onended_def split: option.splits)

lemma timeInvariant_advanceClock:
  assumes "timeInvariant s" and "0 \<le> dt"
    and "\<forall>ctx. audioContextRef s = Some ctx
           \<longrightarrow> toDouble (currentTime ctx + dt) = currentTime ctx + dt"
  shows "timeInvariant (advanceClock dt s)"
  using assms
  by (auto simp add: timeInvariant_def advanceClock_def split: option.splits)

lemma timeInvariant_setState [simp]: "timeInvariant (setState f s) = timeInvariant s"
  by (cases "audioContextRef s") (simp_all add: timeInvariant_def setState_def)

lemma timeInvariant_audioBufferRef [simp]:
  "timeInvariant (s \<lparr> audioBufferRef := buffer \<rparr>) = timeInvariant s"
  by (cases "audioContextRef s") (simp_all add: timeInvariant_def)

lemma timeInvariant_handleGenerateStart:
  "timeInvariant s \<Longrightarrow> timeInvariant (fst (handleGenerateStart s))"
  by (simp add: handleGenerateStart_def Let_def timeInvariant_stopAudio split: option.splits)

lemma timeInvariant_handleGenerateAfterStory:
  "timeInvariant s \<Longrightarrow> timeInvariant (fst (handleGenerateAfterStory outcome s))"
  by (auto simp add: handleGenerateAfterStory_def handleGenerateCatch_def split: sum.splits)

section \<open>playAudio, pauseAudio: offsets and handles\<close>

text \<open>On a non-negative dividend and a positive divisor, \<open>%\<close> is the mathematical modulus.\<close>

lemma remainder_nonneg:
  assumes "0 \<le> n" and "0 < d"
  shows "remainder n d = n - d * of_int \<lfloor>n / d\<rfloor>"
    and "0 \<le> remainder n d"
    and "remainder n d < d"
proof -
  from assms have q: "0 \<le> n / d" by simp
  then show eq: "remainder n d = n - d * of_int \<lfloor>n / d\<rfloor>"
    by (simp add: remainder_def truncate_def)
  have "of_int \<lfloor>n / d\<rfloor> \<le> n / d" by (rule of_int_floor_le)
  with assms(2) have "d * of_int \<lfloor>n / d\<rfloor> \<le> d * (n / d)"
    by (intro mult_left_mono) simp_all
  with assms(2) have "d * of_int \<lfloor>n / d\<rfloor> \<le> n" by simp
  with eq show "0 \<le> remainder n d" by simp
  have "n / d < of_int \<lfloor>n / d\<rfloor> + 1" by linarith
  with assms(2) have "n / d * d < (of_int \<lfloor>n / d\<rfloor> + 1) * d"
    by (intro mult_strict_right_mono)
  with assms(2) have "n < (of_int \<lfloor>n / d\<rfloor> + 1) * d" by simp
  with eq show "remainder n d < d" by (simp add: algebra_simps)
qed

lemma remainder_small:
  assumes "0 \<le> n" and "n < d"
  shows "remainder n d = n"
proof -
  from assms have "0 \<le> n / d" and "n / d < 1" by simp_all
  then have "\<lfloor>n / d\<rfloor> = 0" by (simp add: floor_eq_iff)
  with \<open>0 \<le> n / d\<close> show ?thesis by (simp add: remainder_def truncate_def)
qed

lemma playAudio_loaded:
  assumes "audioContextRef s = Some ctx" and "audioBufferRef s = Some buffer"
    and "0 < duration buffer" and "0 \<le> pausedAtRef s"
  shows "playAudio env s =
           Inr (s \<lparr> audioContextRef := Some (resumeIfSuspended ctx),
                    nodesCreated := Suc (nodesCreated s),
                    outputs := outputs s @
                      [\<lparr> nodeId = nodesCreated s, nodeBuffer = buffer,
                         startOffset = remainder (pausedAtRef s) (duration buffer) \<rparr>],
                    startTimeRef :=
                      doubleMinus (currentTime ctx) (remainder (pausedAtRef s) (duration buffer)),
                    audioSourceRef :=
                      Some \<lparr> nodeId = nodesCreated s, nodeBuffer = buffer,
                             startOffset = remainder (pausedAtRef s) (duration buffer) \<rparr>,
                    isPlaying := True \<rparr>)"
proof -
  from assms(3,4) have "\<not> remainder (pausedAtRef s) (duration buffer) < 0"
    using remainder_nonneg(2) [of "pausedAtRef s" "duration buffer"] by simp
  with assms show ?thesis
    by (simp add: playAudio_def initAudioContext_def Let_def)
qed

text \<open>
  Claim C4. With a buffer loaded, \<open>play()\<close> starts the new source at
  \<open>offset = pausedAt % duration\<close>, which for every paused offset from 0 upwards (beyond
  the duration too) is the paused offset modulo the duration and lies in \<open>[0, duration)\<close>,
  and records \<open>startTime = currentTime - offset\<close>, the subtraction being the source's, on
  doubles: the nearest double to the difference.
\<close>

theorem play_offset_wraps:
  assumes "audioContextRef s = Some ctx" and "audioBufferRef s = Some buffer"
    and "0 < duration buffer" and "0 \<le> pausedAtRef s"
  shows "\<exists>s1 source.
           playAudio env s = Inr s1
           \<and> audioSourceRef s1 = Some source
           \<and> outputs s1 = outputs s @ [source]
           \<and> startOffset source = remainder (pausedAtRef s) (duration buffer)
           \<and> startOffset source = pausedAtRef s - duration buffer * of_int \<lfloor>pausedAtRef s / duration buffer\<rfloor>
           \<and> 0 \<le> startOffset source \<and> startOffset source < duration buffer
           \<and> startTimeRef s1 = doubleMinus (currentTime ctx) (startOffset source)
           \<and> \<bar>startTimeRef s1 - (currentTime ctx - startOffset source)\<bar>
               \<le> \<bar>currentTime ctx - startOffset source\<bar> / 2 ^ 53 + 2 powi (- 1075)
           \<and> isPlaying s1"
  using remainder_nonneg [OF assms(4,3)]
    doubleMinus_error [of "currentTime ctx" "remainder (pausedAtRef s) (duration buffer)"]
  by (simp add: playAudio_loaded [OF assms])

text \<open>
  Paused at 9/8192 s in a buffer of 4/8192 s: playback resumes at 1/8192 s, and
  5 - 1/8192 is a double.
\<close>

theorem play_offset_wraps_witness:
  "\<exists>s1 source.
     playAudio exampleEnv (loadedApp \<lparr> pausedAtRef := 9 / 8192 \<rparr>) = Inr s1
     \<and> audioSourceRef s1 = Some source
     \<and> startOffset source = 1 / 8192
     \<and> startTimeRef s1 = 5 - 1 / 8192"
proof -
  let ?s = "loadedApp \<lparr> pausedAtRef := 9 / 8192 \<rparr>"
  let ?ctx = "\<lparr> currentTime = 5, suspended = False \<rparr>"
  have pre: "audioContextRef ?s = Some ?ctx" "audioBufferRef ?s = Some exampleBuffer"
    "0 < duration exampleBuffer" "0 \<le> pausedAtRef ?s"
    by (simp_all add: loadedApp_fields duration_exampleBuffer)
  from play_offset_wraps [OF pre, of exampleEnv]
  obtain s1 source where run: "playAudio exampleEnv ?s = Inr s1"
    and handle: "audioSourceRef s1 = Some source"
    and offset: "startOffset source = remainder (pausedAtRef ?s) (duration exampleBuffer)"
    and start: "startTimeRef s1 = doubleMinus (currentTime ?ctx) (startOffset source)"
    by blast
  from offset have off: "startOffset source = 1 / 8192"
    by (simp add: duration_exampleBuffer sample_remainder)
  from start have "startTimeRef s1 = doubleMinus 5 (startOffset source)"
    by simp
  then have "startTimeRef s1 = doubleMinus 5 (1 / 8192)"
    by (simp only: off)
  then have "startTimeRef s1 = 5 - 1 / 8192"
    by (simp add: sample_differences)
  with off show ?thesis
    using run handle by blast
qed

lemma playAudio_fields:
  assumes "audioContextRef s = Some ctx" and "audioBufferRef s = Some buffer"
    and "0 < duration buffer" and "0 \<le> pausedAtRef s"
    and "playAudio env s = Inr s1"
  shows "audioContextRef s1 = Some (resumeIfSuspended ctx)"
    and "audioBufferRef s1 = Some buffer"
    and "pausedAtRef s1 = pausedAtRef s"
    and "nodesCreated s1 = Suc (nodesCreated s)"
    and "outputs s1 = outputs s @
           [\<lparr> nodeId = nodesCreated s, nodeBuffer = buffer,
              startOffset = remainder (pausedAtRef s) (duration buffer) \<rparr>]"
    and "audioSourceRef s1 =
           Some \<lparr> nodeId = nodesCreated s, nodeBuffer = buffer,
                  startOffset = remainder (pausedAtRef s) (duration buffer) \<rparr>"
    and "startTimeRef s1
           = doubleMinus (currentTime ctx) (remainder (pausedAtRef s) (duration buffer))"
    and "isPlaying s1"
    and "state s1 = state s"
  using assms(5) assms(2) unfolding playAudio_loaded [OF assms(1-4)] by auto

lemma halt_fresh:
  "\<forall>n \<in> set nodes. nodeId n \<noteq> nodeId source \<Longrightarrow> halt source nodes = nodes"
  by (simp add: halt_def)

text \<open>
  Claim C1, as amended. With a buffer loaded, one \<open>play()\<close> adds exactly one sounding
  source, after which the transport control, rendered unless a generation is in flight,
  offers \<open>pause()\<close> and not \<open>play()\<close>. A second \<open>play()\<close> with no \<open>pause()\<close> or \<open>stop()\<close> in
  between adds another source: the handle then refers to the second, and a later \<open>pause()\<close>
  or \<open>stop()\<close> halts the second and leaves the first sounding.
\<close>

theorem second_play_keeps_first_output:
  assumes "audioContextRef s = Some ctx" and "audioBufferRef s = Some buffer"
    and "0 < duration buffer" and "0 \<le> pausedAtRef s"
  shows "\<exists>s1 s2 first second.
           playAudio env s = Inr s1 \<and> outputs s1 = outputs s @ [first]
           \<and> \<not> playOffered s1
           \<and> pauseOffered s1 = (\<not> isGenerating (state s))
           \<and> playTwice env s = Inr s2 \<and> outputs s2 = outputs s @ [first, second]
           \<and> nodeId first = nodesCreated s \<and> nodeId second = Suc (nodesCreated s)
           \<and> audioSourceRef s1 = Some first \<and> audioSourceRef s2 = Some second
           \<and> outputs (pauseAudio s2) = halt second (outputs s) @ [first]
           \<and> outputs (stopAudio s2) = halt second (outputs s) @ [first]
           \<and> first \<in> set (outputs (pauseAudio s2))
           \<and> second \<notin> set (outputs (pauseAudio s2))
           \<and> first \<in> set (outputs (stopAudio s2))
           \<and> second \<notin> set (outputs (stopAudio s2))
           \<and> ((\<forall>n \<in> set (outputs s). nodeId n < nodesCreated s)
                \<longrightarrow> outputs (pauseAudio s2) = outputs s @ [first]
                  \<and> outputs (stopAudio s2) = outputs s @ [first])"
proof -
  obtain s1 where s1: "playAudio env s = Inr s1"
    using playAudio_loaded [OF assms] by simp
  note f1 = playAudio_fields [OF assms s1]
  have pre: "audioContextRef s1 = Some (resumeIfSuspended ctx)" "audioBufferRef s1 = Some buffer"
    "0 < duration buffer" "0 \<le> pausedAtRef s1"
    using f1 assms by simp_all
  obtain s2 where s2: "playAudio env s1 = Inr s2"
    using playAudio_loaded [OF pre] by simp
  note f2 = playAudio_fields [OF pre s2]
  have twice: "playTwice env s = Inr s2"
    by (simp add: playTwice_def s1 s2)
  define first where
    "first = \<lparr> nodeId = nodesCreated s, nodeBuffer = buffer,
               startOffset = remainder (pausedAtRef s) (duration buffer) \<rparr>"
  define second where
    "second = \<lparr> nodeId = Suc (nodesCreated s), nodeBuffer = buffer,
                startOffset = remainder (pausedAtRef s) (duration buffer) \<rparr>"
  have o1: "outputs s1 = outputs s @ [first]" and h1: "audioSourceRef s1 = Some first"
    using f1 by (simp_all add: first_def)
  have o2: "outputs s2 = outputs s @ [first, second]" and h2: "audioSourceRef s2 = Some second"
    using f1 f2 by (simp_all add: first_def second_def)
  have ids: "nodeId first = nodesCreated s" "nodeId second = Suc (nodesCreated s)"
    by (simp_all add: first_def second_def)
  have c2: "audioContextRef s2 \<noteq> None"
    using f2 by simp
  have p: "outputs (pauseAudio s2) = halt second (outputs s) @ [first]"
    using c2 by (auto simp add: pauseAudio_def h2 o2 halt_def ids)
  have q: "outputs (stopAudio s2) = halt second (outputs s) @ [first]"
    by (simp add: stopAudio_def h2 o2 halt_def ids)
  have gone: "second \<notin> set (halt second (outputs s))"
    by (simp add: halt_def)
  have differ: "second \<noteq> first"
    by (simp add: first_def second_def)
  have offered: "\<not> playOffered s1" "pauseOffered s1 = (\<not> isGenerating (state s))"
    using f1 by (simp_all add: playOffered_def pauseOffered_def mainButtonShown_def)
  have fresh: "(\<forall>n \<in> set (outputs s). nodeId n < nodesCreated s)
                 \<longrightarrow> halt second (outputs s) = outputs s"
    by (auto simp add: ids intro!: halt_fresh)
  show ?thesis
    using s1 twice o1 o2 h1 h2 ids p q gone differ offered fresh
    by (intro exI [of _ s1] exI [of _ s2] exI [of _ first] exI [of _ second]) simp
qed

text \<open>
  From \<open>loadedApp\<close> the two sources are nodes 0 and 1; after one \<open>play()\<close> the control offers
  \<open>pause()\<close>; after two, \<open>pause()\<close> and \<open>stop()\<close> leave node 0 sounding.
\<close>

theorem second_play_keeps_first_output_witness:
  "\<exists>s1 s2. playAudio exampleEnv loadedApp = Inr s1 \<and> pauseOffered s1
        \<and> playTwice exampleEnv loadedApp = Inr s2
        \<and> map nodeId (outputs s2) = [0, 1]
        \<and> map nodeId (outputs (pauseAudio s2)) = [0]
        \<and> map nodeId (outputs (stopAudio s2)) = [0]"
  using second_play_keeps_first_output [of loadedApp
      "\<lparr> currentTime = 5, suspended = False \<rparr>" exampleBuffer exampleEnv]
  by (auto simp add: loadedApp_fields duration_exampleBuffer)

lemma playTwice_loadedApp:
  "\<exists>s2. playTwice exampleEnv loadedApp = Inr s2 \<and> map nodeId (outputs s2) = [0, 1]"
proof -
  have "0 < duration exampleBuffer" "0 \<le> pausedAtRef loadedApp"
    by (simp_all add: duration_exampleBuffer loadedApp_fields)
  note pre = loadedApp_fields(1,2) this
  obtain s1 where s1: "playAudio exampleEnv loadedApp = Inr s1"
    using playAudio_loaded [OF pre] by simp
  note f1 = playAudio_fields [OF pre s1]
  have pre1: "audioContextRef s1 = Some (resumeIfSuspended \<lparr> currentTime = 5, suspended = False \<rparr>)"
    "audioBufferRef s1 = Some exampleBuffer" "0 < duration exampleBuffer" "0 \<le> pausedAtRef s1"
    using f1 pre by simp_all
  obtain s2 where s2: "playAudio exampleEnv s1 = Inr s2"
    using playAudio_loaded [OF pre1] by simp
  note f2 = playAudio_fields [OF pre1 s2]
  show ?thesis
    using f1 f2 by (simp add: playTwice_def s1 s2 loadedApp_fields)
qed

text \<open>
  Claim C1 as first stated: after two calls of \<open>play()\<close> at most one output is active. From
  \<open>loadedApp\<close>, where none is, there are two.
\<close>

theorem two_outputs_counterexample:
  "case playTwice exampleEnv loadedApp of
     Inl failure \<Rightarrow> False
   | Inr s2 \<Rightarrow> length (outputs loadedApp) = 0 \<and> length (outputs s2) = 2"
  using playTwice_loadedApp
  by (auto simp add: loadedApp_fields dest: arg_cong [where f = length])

lemma playThenPause_loaded:
  assumes "audioContextRef s = Some ctx" and "audioBufferRef s = Some buffer"
    and "0 \<le> pausedAtRef s" and "pausedAtRef s < duration buffer"
  shows "\<exists>s2. playThenPause env s = Inr s2
           \<and> pausedAtRef s2
               = doubleMinus (currentTime ctx) (doubleMinus (currentTime ctx) (pausedAtRef s))
           \<and> \<not> isPlaying s2 \<and> audioSourceRef s2 = None"
proof -
  from assms(3,4) have pos: "0 < duration buffer" by simp
  have small: "remainder (pausedAtRef s) (duration buffer) = pausedAtRef s"
    using assms(3,4) by (rule remainder_small)
  show ?thesis
    by (simp add: playThenPause_def playAudio_loaded [OF assms(1,2) pos assms(3)]
        pauseAudio_def small)
qed

lemma twice_rounded:
  assumes "0 \<le> p"
  shows "\<bar>doubleMinus c (doubleMinus c p) - p\<bar>
           \<le> 3 * (\<bar>c\<bar> + p) / 2 ^ 53 + 3 * 2 powi (- 1075)"
proof -
  define t :: real where "t = 2 powi (- 1075)"
  define u :: real where "u = 1 / 2 ^ 53"
  define st where "st = doubleMinus c p"
  define r where "r = doubleMinus c st"
  define A where "A = \<bar>st - (c - p)\<bar>"
  define B where "B = \<bar>r - (c - st)\<bar>"
  define W where "W = \<bar>c\<bar> + p"
  have t: "0 \<le> t" by (simp add: t_def)
  have u: "0 \<le> u" "u \<le> 1" by (simp_all add: u_def)
  have A0: "0 \<le> A" by (simp add: A_def)
  have W: "p \<le> W" by (simp add: W_def)
  have "\<bar>c - p\<bar> \<le> W"
    unfolding W_def using assms by linarith
  then have "u * \<bar>c - p\<bar> \<le> u * W"
    using u(1) by (rule mult_left_mono)
  moreover have "A \<le> u * \<bar>c - p\<bar> + t"
    using doubleMinus_error [of c p] by (simp add: A_def st_def t_def u_def)
  ultimately have hA: "A \<le> u * W + t" by linarith
  have "\<bar>c - st\<bar> \<le> p + A"
    unfolding A_def using assms by linarith
  then have "u * \<bar>c - st\<bar> \<le> u * (p + A)"
    using u(1) by (rule mult_left_mono)
  moreover have "B \<le> u * \<bar>c - st\<bar> + t"
    using doubleMinus_error [of c st] by (simp add: B_def r_def t_def u_def)
  ultimately have hB: "B \<le> u * (p + A) + t" by linarith
  have "u * A \<le> 1 * A"
    using u(2) A0 by (rule mult_right_mono)
  moreover have "u * p \<le> u * W"
    using W u(1) by (rule mult_left_mono)
  moreover have "u * (p + A) = u * p + u * A"
    by (simp add: algebra_simps)
  ultimately have sum: "A + B \<le> 3 * (u * W) + 3 * t"
    using hA hB t by linarith
  have "\<bar>r - p\<bar> \<le> A + B"
    unfolding A_def B_def by linarith
  with sum have "\<bar>r - p\<bar> \<le> 3 * (u * W) + 3 * t" by linarith
  then show ?thesis
    by (simp add: r_def st_def t_def W_def u_def)
qed

lemma twice_exact:
  "toDouble p = p \<Longrightarrow> toDouble (c - p) = c - p \<Longrightarrow> doubleMinus c (doubleMinus c p) = p"
  by (simp add: doubleMinus_def)

text \<open>
  Claim C5, as amended. With a buffer loaded and the paused offset in \<open>[0, duration)\<close>,
  \<open>play()\<close> followed by \<open>pause()\<close> at the same clock reading leaves as paused offset
  \<open>currentTime - (currentTime - pausedAt)\<close> computed in doubles. That is the old offset up
  to the rounding of the two subtractions: it differs from it by at most
  \<open>3 (currentTime + pausedAt) / 2^53 + 3 / 2^1075\<close>, and is the old offset itself when the
  old offset and \<open>currentTime - pausedAt\<close> are doubles.
\<close>

theorem play_pause_within_rounding:
  assumes "audioContextRef s = Some ctx" and "audioBufferRef s = Some buffer"
    and "0 \<le> pausedAtRef s" and "pausedAtRef s < duration buffer"
  shows "\<exists>s2. playThenPause env s = Inr s2
           \<and> pausedAtRef s2
               = doubleMinus (currentTime ctx) (doubleMinus (currentTime ctx) (pausedAtRef s))
           \<and> \<bar>pausedAtRef s2 - pausedAtRef s\<bar>
               \<le> 3 * (\<bar>currentTime ctx\<bar> + pausedAtRef s) / 2 ^ 53 + 3 * 2 powi (- 1075)
           \<and> (toDouble (pausedAtRef s) = pausedAtRef s
                \<and> toDouble (currentTime ctx - pausedAtRef s) = currentTime ctx - pausedAtRef s
                \<longrightarrow> pausedAtRef s2 = pausedAtRef s)
           \<and> \<not> isPlaying s2 \<and> audioSourceRef s2 = None"
  using playThenPause_loaded [OF assms, of env]
    twice_rounded [OF assms(3), of "currentTime ctx"]
    twice_exact [of "pausedAtRef s" "currentTime ctx"]
  by auto

text \<open>
  \<open>loadedApp\<close> is paused at 1/8192 s. There both differences are doubles and the offset
  comes back as it was.
\<close>

theorem play_pause_within_rounding_witness:
  "\<exists>s2. playThenPause exampleEnv loadedApp = Inr s2 \<and> pausedAtRef s2 = 1 / 8192"
  using play_pause_within_rounding [of loadedApp "\<lparr> currentTime = 5, suspended = False \<rparr>"
      exampleBuffer exampleEnv]
  by (auto simp add: loadedApp_fields duration_exampleBuffer sample_differences)

text \<open>
  Claim C5 as first stated: the paused offset is unchanged. With the clock at 5 and the
  offset the double nearest to 0.000125, within the buffer's 4/8192 s, \<open>5 - offset\<close> is not
  a double; it is rounded, and the offset comes back as \<open>140737488355 / 2^50\<close>, which is
  0.00012499999999970868...
\<close>

theorem play_pause_drift_counterexample:
  "case playThenPause exampleEnv driftApp of
     Inl failure \<Rightarrow> False
   | Inr s2 \<Rightarrow>
       pausedAtRef driftApp = 1152921504606847 / 9223372036854775808
       \<and> pausedAtRef s2 = 140737488355 / 1125899906842624
       \<and> pausedAtRef s2 \<noteq> pausedAtRef driftApp"
  using playThenPause_loaded [of driftApp "\<lparr> currentTime = 5, suspended = False \<rparr>"
      exampleBuffer exampleEnv]
  by (auto simp add: driftApp_fields duration_exampleBuffer drift_start drift_pause)

section \<open>The completion callback\<close>

text \<open>
  Claim C6. The completion callback resets the state (\<open>isPlaying\<close> false, paused offset 0)
  when \<open>currentTime - startTime \<ge> duration\<close>, the subtraction being the source's, on doubles,
  and changes nothing otherwise. So a completion event delivered after a manual \<open>pause()\<close>
  or \<open>stop()\<close>, while the elapsed time is still below the duration, leaves the offset that
  \<open>pause()\<close> recorded.
\<close>

theorem onended_guard:
  "(\<forall>ctx. audioContextRef s = Some ctx
          \<and> duration (nodeBuffer source) \<le> doubleMinus (currentTime ctx) (startTimeRef s)
      \<longrightarrow> onended source s = s \<lparr> isPlaying := False, pausedAtRef := 0 \<rparr>)
   \<and> (\<forall>ctx. audioContextRef s = Some ctx
          \<and> doubleMinus (currentTime ctx) (startTimeRef s) < duration (nodeBuffer source)
      \<longrightarrow> onended source s = s)
   \<and> (audioContextRef s = None \<longrightarrow> onended source s = s)
   \<and> (\<forall>ctx dt. audioContextRef s = Some ctx \<and> audioSourceRef s = Some source
          \<and> doubleMinus (currentTime ctx + dt) (startTimeRef s) < duration (nodeBuffer source)
      \<longrightarrow> sourceFinished source (advanceClock dt (pauseAudio s)) = advanceClock dt (pauseAudio s)
          \<and> pausedAtRef (sourceFinished source (advanceClock dt (pauseAudio s)))
              = doubleMinus (currentTime ctx) (startTimeRef s))
   \<and> (\<forall>ctx dt. audioContextRef s = Some ctx \<and> audioSourceRef s = Some source
          \<and> doubleMinus (currentTime ctx + dt) (startTimeRef s) < duration (nodeBuffer source)
      \<longrightarrow> sourceFinished source (advanceClock dt (stopAudio s)) = advanceClock dt (stopAudio s))"
  by (auto simp add: onended_def sourceFinished_def advanceClock_def pauseAudio_def
      stopAudio_def halt_def)

text \<open>
  \<open>playingApp\<close> a second later has played past its end and is reset; at once, or 1/4096 s
  after a pause, the callback changes nothing.
\<close>

theorem onended_guard_witness:
  "pausedAtRef (onended exampleSource (advanceClock 1 playingApp)) = 0
   \<and> \<not> isPlaying (onended exampleSource (advanceClock 1 playingApp))
   \<and> onended exampleSource playingApp = playingApp
   \<and> pausedAtRef (sourceFinished exampleSource (advanceClock (1 / 4096) (pauseAudio playingApp)))
       = 1 / 8192"
proof -
  have b: "duration (nodeBuffer exampleSource) = 1 / 2048"
    by (simp add: exampleSource_def duration_exampleBuffer)
  have adv: "audioContextRef (advanceClock 1 playingApp) = Some \<lparr> currentTime = 6, suspended = False \<rparr>"
    "startTimeRef (advanceClock 1 playingApp) = 40959 / 8192"
    by (simp_all add: advanceClock_def playingApp_fields)
  from onended_guard [of "advanceClock 1 playingApp" exampleSource]
  have 1: "onended exampleSource (advanceClock 1 playingApp)
      = (advanceClock 1 playingApp) \<lparr> isPlaying := False, pausedAtRef := 0 \<rparr>"
    by (simp add: adv b sample_differences)
  from onended_guard [of playingApp exampleSource]
  have 2: "onended exampleSource playingApp = playingApp"
    by (simp add: playingApp_fields b sample_differences)
  let ?ctx = "\<lparr> currentTime = 5, suspended = False \<rparr>"
  from onended_guard [of playingApp exampleSource]
  have "audioContextRef playingApp = Some ?ctx \<and> audioSourceRef playingApp = Some exampleSource
          \<and> doubleMinus (currentTime ?ctx + 1 / 4096) (startTimeRef playingApp)
              < duration (nodeBuffer exampleSource)
        \<longrightarrow> pausedAtRef (sourceFinished exampleSource (advanceClock (1 / 4096) (pauseAudio playingApp)))
              = doubleMinus (currentTime ?ctx) (startTimeRef playingApp)"
    by blast
  then have 3: "pausedAtRef (sourceFinished exampleSource (advanceClock (1 / 4096) (pauseAudio playingApp)))
       = 1 / 8192"
    by (simp add: playingApp_fields b sample_differences)
  from 1 2 3 show ?thesis by simp
qed

section \<open>generateStoryText on an empty answer\<close>

lemma foldl_pushChunk: "foldl pushChunk sources chunks = sources @ concat (map (pushChunk []) chunks)"
proof (induction chunks arbitrary: sources)
  case Nil
  show ?case by simp
next
  case (Cons chunk chunks)
  have "pushChunk sources chunk = sources @ pushChunk [] chunk"
    by (simp add: pushChunk_def split: option.splits)
  then show ?case by (simp add: Cons.IH)
qed

text \<open>
  Claim C10. When the text model answers without a text, or with the empty text,
  \<open>generateStoryText\<close> returns the fixed fallback sentence together with the grounding
  sources of the answer: one per chunk that carries a web or a map citation, in order.
\<close>

theorem empty_text_falls_back:
  assumes "storyModel env c time vibe = Inr response"
    and "responseText response = None \<or> responseText response = Some []"
  shows "generateStoryText env c time vibe =
           Inr \<lparr> storyResponseText = ''The signal is weak... I cannot weave a story right now.'',
                 storyResponseSources =
                   (case groundingChunks response of
                      None \<Rightarrow> []
                    | Some chunks \<Rightarrow> concat (map (pushChunk []) chunks)) \<rparr>"
  using assms
  by (auto simp add: generateStoryText_def orElse_def weakSignalText_def extractSources_def
      foldl_pushChunk split: option.splits)

text \<open>An empty text with a web chunk, an untitled map chunk and a chunk of neither kind.\<close>

theorem empty_text_falls_back_witness:
  "generateStoryText silentEnv exampleCoords MORNING MYSTERIOUS =
     Inr \<lparr> storyResponseText = ''The signal is weak... I cannot weave a story right now.'',
           storyResponseSources =
             [\<lparr> title = Some ''Ferry Building'', uri = Some ''https://a.example'' \<rparr>,
              \<lparr> title = Some ''Map Location'', uri = Some ''https://b.example'' \<rparr>] \<rparr>"
  using empty_text_falls_back [of silentEnv exampleCoords
      MORNING MYSTERIOUS silentResponse]
  by (simp add: silentEnv_def silentResponse_def pushChunk_def orElse_def)

section \<open>handleGenerate: reset first, stop at the first failure\<close>

lemma stopAudio_fields:
  "audioSourceRef (stopAudio s) = None"
  "pausedAtRef (stopAudio s) = 0"
  "\<not> isPlaying (stopAudio s)"
  "audioContextRef (stopAudio s) = audioContextRef s"
  "audioBufferRef (stopAudio s) = audioBufferRef s"
  "state (stopAudio s) = state s"
  "outputs (stopAudio s) = (case audioSourceRef s of None \<Rightarrow> outputs s | Some source \<Rightarrow> halt source (outputs s))"
  by (simp_all add: stopAudio_def split: option.splits)

lemma handleGenerateStart_coords:
  assumes "coords (state s) = Some c"
  shows "handleGenerateStart s =
           ((stopAudio s) \<lparr> audioBufferRef := None,
                             state := (state s) \<lparr> isGenerating := True, error := None,
                                                   storyText := None, groundingSources := [],
                                                   statusMessage := ''Scanning Environment...'' \<rparr> \<rparr>,
            Some (c, timeOfDay (state s), selectedVibe (state s)))"
  using assms by (simp add: handleGenerateStart_def setState_def stopAudio_fields)

text \<open>
  Claim C7. When coordinates are present, \<open>handleGenerate\<close> reaches its first collaborator
  call (the story request) only after \<open>stopAudio\<close> has run and the buffer has been dropped:
  in the state it awaits in there is no buffer, no handle, the paused offset is 0,
  \<open>isPlaying\<close> is false and the source that was tracked no longer sounds. Nothing here
  depends on whether anything was playing.
\<close>

theorem generate_resets_audio_first:
  assumes "coords (state s) = Some c"
  shows "\<exists>s1 later.
           handleGenerateStart s = (s1, Some (c, timeOfDay (state s), selectedVibe (state s)))
           \<and> snd (handleGenerate env s)
               = CallGenerateStoryText c (timeOfDay (state s)) (selectedVibe (state s)) # later
           \<and> audioBufferRef s1 = None
           \<and> audioSourceRef s1 = None \<and> pausedAtRef s1 = 0 \<and> \<not> isPlaying s1
           \<and> outputs s1 = outputs (stopAudio s)
           \<and> (\<forall>source. audioSourceRef s = Some source \<longrightarrow> source \<notin> set (outputs s1))"
  by (auto simp add: handleGenerateStart_coords [OF assms] stopAudio_fields halt_def
      handleGenerate_def split: prod.splits option.splits)

text \<open>Regenerating while \<open>playingApp\<close> plays.\<close>

theorem generate_resets_audio_first_witness:
  "\<exists>s1. handleGenerateStart playingApp
          = (s1, Some (exampleCoords, MORNING, MYSTERIOUS))
        \<and> audioBufferRef s1 = None \<and> audioSourceRef s1 = None \<and> outputs s1 = []"
  using generate_resets_audio_first [of playingApp
      exampleCoords exampleEnv]
  by (auto simp add: playingApp_fields stopAudio_fields halt_def)

lemma generateStoryText_Inl:
  "generateStoryText env c time vibe = Inl e \<Longrightarrow> e = storyFailure"
  by (simp add: generateStoryText_def split: sum.splits)

lemma generateSpeech_Inl:
  "generateSpeech env narrative = Inl e \<Longrightarrow> e = speechFailure"
  by (simp add: generateSpeech_def split: sum.splits option.splits if_splits)

lemma cycle_story_fails:
  assumes "coords (state s) = Some c"
    and "generateStoryText env c (timeOfDay (state s)) (selectedVibe (state s)) = Inl e"
  shows "snd (handleGenerate env s)
           = [CallGenerateStoryText c (timeOfDay (state s)) (selectedVibe (state s))]"
    and "error (state (fst (handleGenerate env s)))
           = Some ''Failed to weave the narrative thread. The connection to the neural net was interrupted.''"
    and "\<not> isGenerating (state (fst (handleGenerate env s)))"
    and "storyText (state (fst (handleGenerate env s))) = None"
  using assms(2) generateStoryText_Inl [OF assms(2)]
  by (simp_all add: handleGenerate_def handleGenerateStart_coords [OF assms(1)]
      handleGenerateAfterStory_def handleGenerateCatch_def setState_def storyFailure_def)

lemma cycle_speech_fails:
  assumes "coords (state s) = Some c"
    and "generateStoryText env c (timeOfDay (state s)) (selectedVibe (state s)) = Inr story"
    and "generateSpeech env (storyResponseText story) = Inl e"
  shows "snd (handleGenerate env s)
           = [CallGenerateStoryText c (timeOfDay (state s)) (selectedVibe (state s)),
              CallGenerateSpeech (storyResponseText story)]"
    and "error (state (fst (handleGenerate env s))) = Some ''Voice synthesis module failed.''"
    and "\<not> isGenerating (state (fst (handleGenerate env s)))"
    and "storyText (state (fst (handleGenerate env s))) = Some (storyResponseText story)"
  using assms(2,3) generateSpeech_Inl [OF assms(3)]
  by (simp_all add: handleGenerate_def handleGenerateStart_coords [OF assms(1)]
      handleGenerateAfterStory_def handleGenerateAfterSpeech_def handleGenerateCatch_def
      setState_def speechFailure_def)

lemma cycle_no_audio:
  assumes "coords (state s) = Some c"
    and "generateStoryText env c (timeOfDay (state s)) (selectedVibe (state s)) = Inr story"
    and "generateSpeech env (storyResponseText story) = Inr base64Audio"
    and "audioContextRef s = None" and "newAudioContext env = None"
  shows "snd (handleGenerate env s)
           = [CallGenerateStoryText c (timeOfDay (state s)) (selectedVibe (state s)),
              CallGenerateSpeech (storyResponseText story)]"
    and "error (state (fst (handleGenerate env s))) = Some ''AudioContext is not a constructor''"
    and "\<not> isGenerating (state (fst (handleGenerate env s)))"
    and "storyText (state (fst (handleGenerate env s))) = Some (storyResponseText story)"
  using assms(2-5)
  by (simp_all add: handleGenerate_def handleGenerateStart_coords [OF assms(1)]
      handleGenerateAfterStory_def handleGenerateAfterSpeech_def handleGenerateCatch_def
      setState_def initAudioContext_def stopAudio_fields)

lemma cycle_decode_fails:
  assumes "coords (state s) = Some c"
    and "generateStoryText env c (timeOfDay (state s)) (selectedVibe (state s)) = Inr story"
    and "generateSpeech env (storyResponseText story) = Inr base64Audio"
    and "audioContextRef s \<noteq> None \<or> newAudioContext env \<noteq> None"
    and "decodeAndPlay env base64Audio = Inl e"
  shows "snd (handleGenerate env s)
           = [CallGenerateStoryText c (timeOfDay (state s)) (selectedVibe (state s)),
              CallGenerateSpeech (storyResponseText story),
              CallDecodeAndPlay base64Audio]"
    and "error (state (fst (handleGenerate env s))) = Some (errorMessageOf e)"
    and "\<not> isGenerating (state (fst (handleGenerate env s)))"
    and "storyText (state (fst (handleGenerate env s))) = Some (storyResponseText story)"
    and "audioBufferRef (fst (handleGenerate env s)) = None"
  using assms(2-5)
  by (auto simp add: handleGenerate_def handleGenerateStart_coords [OF assms(1)]
      handleGenerateAfterStory_def handleGenerateAfterSpeech_def handleGenerateAfterDecode_def
      handleGenerateCatch_def setState_def initAudioContext_def stopAudio_fields
      split: option.splits)

lemma cycle_ends_idle:
  assumes "coords (state s) = Some c"
  shows "\<not> isGenerating (state (fst (handleGenerate env s)))"
    and "storyText (state (fst (handleGenerate env s)))
           = (case generateStoryText env c (timeOfDay (state s)) (selectedVibe (state s)) of
                Inl e \<Rightarrow> None
              | Inr story \<Rightarrow> Some (storyResponseText story))"
  by (auto simp add: handleGenerate_def handleGenerateStart_coords [OF assms]
      handleGenerateAfterStory_def handleGenerateAfterSpeech_def handleGenerateAfterDecode_def
      handleGenerateCatch_def setState_def initAudioContext_def playAudio_def Let_def
      split: option.splits sum.splits prod.splits)

text \<open>
  Claim C8. Whatever happens in a cycle, \<open>isGenerating\<close> is false when it ends, and the
  story text is the one stage 1 produced (none when stage 1 failed). When a stage fails, no
  later collaborator is called and \<open>error\<close> carries the message: the story stage, the speech
  stage, the creation of the audio context, and the decoding.
\<close>

theorem failed_cycle_stops_and_reports:
  assumes "coords (state s) = Some c"
  shows "\<not> isGenerating (state (fst (handleGenerate env s)))
       \<and> storyText (state (fst (handleGenerate env s)))
           = (case generateStoryText env c (timeOfDay (state s)) (selectedVibe (state s)) of
                Inl e \<Rightarrow> None
              | Inr story \<Rightarrow> Some (storyResponseText story))
       \<and> (\<forall>e. generateStoryText env c (timeOfDay (state s)) (selectedVibe (state s)) = Inl e
            \<longrightarrow> snd (handleGenerate env s)
                  = [CallGenerateStoryText c (timeOfDay (state s)) (selectedVibe (state s))]
              \<and> error (state (fst (handleGenerate env s)))
                  = Some ''Failed to weave the narrative thread. The connection to the neural net was interrupted.'')
       \<and> (\<forall>story e.
              generateStoryText env c (timeOfDay (state s)) (selectedVibe (state s)) = Inr story
              \<and> generateSpeech env (storyResponseText story) = Inl e
            \<longrightarrow> snd (handleGenerate env s)
                  = [CallGenerateStoryText c (timeOfDay (state s)) (selectedVibe (state s)),
                     CallGenerateSpeech (storyResponseText story)]
              \<and> error (state (fst (handleGenerate env s))) = Some ''Voice synthesis module failed.'')
       \<and> (\<forall>story base64Audio.
              generateStoryText env c (timeOfDay (state s)) (selectedVibe (state s)) = Inr story
              \<and> generateSpeech env (storyResponseText story) = Inr base64Audio
              \<and> audioContextRef s = None \<and> newAudioContext env = None
            \<longrightarrow> snd (handleGenerate env s)
                  = [CallGenerateStoryText c (timeOfDay (state s)) (selectedVibe (state s)),
                     CallGenerateSpeech (storyResponseText story)]
              \<and> error (state (fst (handleGenerate env s))) = Some ''AudioContext is not a constructor'')
       \<and> (\<forall>story base64Audio e.
              generateStoryText env c (timeOfDay (state s)) (selectedVibe (state s)) = Inr story
              \<and> generateSpeech env (storyResponseText story) = Inr base64Audio
              \<and> (audioContextRef s \<noteq> None \<or> newAudioContext env \<noteq> None)
              \<and> decodeAndPlay env base64Audio = Inl e
            \<longrightarrow> snd (handleGenerate env s)
                  = [CallGenerateStoryText c (timeOfDay (state s)) (selectedVibe (state s)),
                     CallGenerateSpeech (storyResponseText story),
                     CallDecodeAndPlay base64Audio]
              \<and> error (state (fst (handleGenerate env s))) = Some (errorMessageOf e)
              \<and> audioBufferRef (fst (handleGenerate env s)) = None)"
proof (intro conjI allI impI)
  show "\<not> isGenerating (state (fst (handleGenerate env s)))"
    by (rule cycle_ends_idle(1) [OF assms])
  show "storyText (state (fst (handleGenerate env s)))
          = (case generateStoryText env c (timeOfDay (state s)) (selectedVibe (state s)) of
               Inl e \<Rightarrow> None
             | Inr story \<Rightarrow> Some (storyResponseText story))"
    by (rule cycle_ends_idle(2) [OF assms])
next
  fix e
  assume a: "generateStoryText env c (timeOfDay (state s)) (selectedVibe (state s)) = Inl e"
  show "snd (handleGenerate env s)
          = [CallGenerateStoryText c (timeOfDay (state s)) (selectedVibe (state s))]"
    by (rule cycle_story_fails(1) [OF assms a])
  show "error (state (fst (handleGenerate env s)))
          = Some ''Failed to weave the narrative thread. The connection to the neural net was interrupted.''"
    by (rule cycle_story_fails(2) [OF assms a])
next
  fix story e
  assume a: "generateStoryText env c (timeOfDay (state s)) (selectedVibe (state s)) = Inr story
             \<and> generateSpeech env (storyResponseText story) = Inl e"
  note r = cycle_speech_fails [OF assms a [THEN conjunct1] a [THEN conjunct2]]
  show "snd (handleGenerate env s)
          = [CallGenerateStoryText c (timeOfDay (state s)) (selectedVibe (state s)),
             CallGenerateSpeech (storyResponseText story)]"
    by (rule r)
  show "error (state (fst (handleGenerate env s))) = Some ''Voice synthesis module failed.''"
    by (rule r)
next
  fix story base64Audio
  assume a: "generateStoryText env c (timeOfDay (state s)) (selectedVibe (state s)) = Inr story
             \<and> generateSpeech env (storyResponseText story) = Inr base64Audio
             \<and> audioContextRef s = None \<and> newAudioContext env = None"
  then have a1: "generateStoryText env c (timeOfDay (state s)) (selectedVibe (state s)) = Inr story"
    and a2: "generateSpeech env (storyResponseText story) = Inr base64Audio"
    and a3: "audioContextRef s = None" and a4: "newAudioContext env = None"
    by simp_all
  note r = cycle_no_audio [OF assms a1 a2 a3 a4]
  show "snd (handleGenerate env s)
          = [CallGenerateStoryText c (timeOfDay (state s)) (selectedVibe (state s)),
             CallGenerateSpeech (storyResponseText story)]"
    by (rule r)
  show "error (state (fst (handleGenerate env s))) = Some ''AudioContext is not a constructor''"
    by (rule r)
next
  fix story base64Audio e
  assume a: "generateStoryText env c (timeOfDay (state s)) (selectedVibe (state s)) = Inr story
             \<and> generateSpeech env (storyResponseText story) = Inr base64Audio
             \<and> (audioContextRef s \<noteq> None \<or> newAudioContext env \<noteq> None)
             \<and> decodeAndPlay env base64Audio = Inl e"
  then have a1: "generateStoryText env c (timeOfDay (state s)) (selectedVibe (state s)) = Inr story"
    and a2: "generateSpeech env (storyResponseText story) = Inr base64Audio"
    and a3: "audioContextRef s \<noteq> None \<or> newAudioContext env \<noteq> None"
    and a4: "decodeAndPlay env base64Audio = Inl e"
    by simp_all
  note r = cycle_decode_fails [OF assms a1 a2 a3 a4]
  show "snd (handleGenerate env s)
          = [CallGenerateStoryText c (timeOfDay (state s)) (selectedVibe (state s)),
             CallGenerateSpeech (storyResponseText story),
             CallDecodeAndPlay base64Audio]"
    by (rule r)
  show "error (state (fst (handleGenerate env s))) = Some (errorMessageOf e)" by (rule r)
  show "audioBufferRef (fst (handleGenerate env s)) = None" by (rule r)
qed

text \<open>One failing environment per stage, each from \<open>readyApp\<close>.\<close>

theorem failed_cycle_stops_and_reports_witness:
  "snd (handleGenerate storyFailsEnv readyApp)
     = [CallGenerateStoryText exampleCoords MORNING MYSTERIOUS]
   \<and> error (state (fst (handleGenerate storyFailsEnv readyApp)))
     = Some ''Failed to weave the narrative thread. The connection to the neural net was interrupted.''
   \<and> storyText (state (fst (handleGenerate storyFailsEnv readyApp))) = None
   \<and> \<not> isGenerating (state (fst (handleGenerate storyFailsEnv readyApp)))
   \<and> snd (handleGenerate speechFailsEnv readyApp)
     = [CallGenerateStoryText exampleCoords MORNING MYSTERIOUS,
        CallGenerateSpeech ''Fog rolls in.'']
   \<and> error (state (fst (handleGenerate speechFailsEnv readyApp)))
     = Some ''Voice synthesis module failed.''
   \<and> storyText (state (fst (handleGenerate speechFailsEnv readyApp))) = Some ''Fog rolls in.''
   \<and> error (state (fst (handleGenerate noAudioEnv readyApp)))
     = Some ''AudioContext is not a constructor''
   \<and> snd (handleGenerate decodeFailsEnv readyApp)
     = [CallGenerateStoryText exampleCoords MORNING MYSTERIOUS,
        CallGenerateSpeech ''Fog rolls in.'', CallDecodeAndPlay ''AQID'']
   \<and> error (state (fst (handleGenerate decodeFailsEnv readyApp)))
     = Some ''byte length of Int16Array should be a multiple of 2''"
proof -
  let ?c = exampleCoords
  have story: "generateStoryText speechFailsEnv ?c MORNING MYSTERIOUS
                 = Inr \<lparr> storyResponseText = ''Fog rolls in.'', storyResponseSources = [] \<rparr>"
    "generateStoryText noAudioEnv ?c MORNING MYSTERIOUS
                 = Inr \<lparr> storyResponseText = ''Fog rolls in.'', storyResponseSources = [] \<rparr>"
    "generateStoryText decodeFailsEnv ?c MORNING MYSTERIOUS
                 = Inr \<lparr> storyResponseText = ''Fog rolls in.'', storyResponseSources = [] \<rparr>"
    using example_outcomes(2) [of ?c MORNING MYSTERIOUS]
    by (simp_all add: generateStoryText_def example_env_fields)
  have speech: "generateSpeech noAudioEnv ''Fog rolls in.'' = Inr ''AID/fw==''"
    using example_outcomes(4) [of "''Fog rolls in.''"]
    by (simp add: generateSpeech_def example_env_fields)
  have decode: "decodeAndPlay decodeFailsEnv ''AQID''
      = Inl (ErrorInstance ''RangeError'' ''byte length of Int16Array should be a multiple of 2'')"
    by (simp add: decodeAndPlay_def decodeFailsEnv_def exampleEnv_def exampleAtob_def
        pcmFallback_odd)
  note c = readyApp_fields(1)
  from failed_cycle_stops_and_reports [OF c, of storyFailsEnv]
  have 1: "snd (handleGenerate storyFailsEnv readyApp) = [CallGenerateStoryText ?c MORNING MYSTERIOUS]"
    "error (state (fst (handleGenerate storyFailsEnv readyApp)))
      = Some ''Failed to weave the narrative thread. The connection to the neural net was interrupted.''"
    "storyText (state (fst (handleGenerate storyFailsEnv readyApp))) = None"
    "\<not> isGenerating (state (fst (handleGenerate storyFailsEnv readyApp)))"
    by (simp_all add: readyApp_fields example_outcomes)
  from failed_cycle_stops_and_reports [OF c, of speechFailsEnv]
  have 2: "snd (handleGenerate speechFailsEnv readyApp)
      = [CallGenerateStoryText ?c MORNING MYSTERIOUS, CallGenerateSpeech ''Fog rolls in.'']"
    "error (state (fst (handleGenerate speechFailsEnv readyApp))) = Some ''Voice synthesis module failed.''"
    "storyText (state (fst (handleGenerate speechFailsEnv readyApp))) = Some ''Fog rolls in.''"
    by (simp_all add: readyApp_fields example_outcomes story)
  from failed_cycle_stops_and_reports [OF c, of noAudioEnv]
  have 3: "error (state (fst (handleGenerate noAudioEnv readyApp))) = Some ''AudioContext is not a constructor''"
    by (simp add: readyApp_fields story speech example_env_fields)
  from failed_cycle_stops_and_reports [OF c, of decodeFailsEnv]
  have 4: "snd (handleGenerate decodeFailsEnv readyApp)
      = [CallGenerateStoryText ?c MORNING MYSTERIOUS, CallGenerateSpeech ''Fog rolls in.'',
         CallDecodeAndPlay ''AQID'']"
    "error (state (fst (handleGenerate decodeFailsEnv readyApp)))
      = Some ''byte length of Int16Array should be a multiple of 2''"
    by (simp_all add: readyApp_fields story example_outcomes example_env_fields decode)
  from 1 2 3 4 show ?thesis by simp
qed

section \<open>Overlapping cycles\<close>









end
